theory Spec2Isabelle
  imports Complex_Main
begin

section \<open>Runner manager: data model\<close>

text \<open>
  The runner manager (Go, \<^verbatim>\<open>package main\<close>) keeps its quantities in \<^verbatim>\<open>float32\<close>.
  They are read here as the rational numbers they denote: \<open>+\<close>, \<open>-\<close>, \<open>/\<close> and \<open><\<close> are
  exact, rounding, infinities and NaN are not modelled. Go's \<^verbatim>\<open>int\<close> is \<open>int\<close>; the
  configuration is validated at start-up (non-negative minimums), so the integer
  arithmetic of the controller stays far inside 64 bits.
\<close>

text \<open>
  \<^verbatim>\<open>daytona.RunnerFull\<close> comes from the generated API client. The controller reads it
  through its getters only; an optional field that is absent reads as the zero value.
\<close>

record RunnerFull =
  runner_Name :: string
  runner_Domain :: "string option"
  runner_Cpu :: rat
  runner_Memory :: rat
  runner_CurrentAllocatedCpu :: "rat option"
  runner_CurrentAllocatedMemoryGiB :: "rat option"
  runner_CurrentAllocatedDiskGiB :: "rat option"
  runner_CurrentStartedSandboxes :: "rat option"
  runner_CurrentSnapshotCount :: "rat option"
  runner_Unschedulable :: bool

definition orZero :: "rat option \<Rightarrow> rat" where
  "orZero v = (case v of None \<Rightarrow> 0 | Some x \<Rightarrow> x)"

definition GetName :: "RunnerFull \<Rightarrow> string" where
  "GetName runner = runner_Name runner"

definition GetDomain :: "RunnerFull \<Rightarrow> string" where
  "GetDomain runner = (case runner_Domain runner of None \<Rightarrow> '''' | Some d \<Rightarrow> d)"

definition GetCpu :: "RunnerFull \<Rightarrow> rat" where
  "GetCpu runner = runner_Cpu runner"

definition GetMemory :: "RunnerFull \<Rightarrow> rat" where
  "GetMemory runner = runner_Memory runner"

definition GetCurrentAllocatedCpu :: "RunnerFull \<Rightarrow> rat" where
  "GetCurrentAllocatedCpu runner = orZero (runner_CurrentAllocatedCpu runner)"

definition GetCurrentAllocatedMemoryGiB :: "RunnerFull \<Rightarrow> rat" where
  "GetCurrentAllocatedMemoryGiB runner = orZero (runner_CurrentAllocatedMemoryGiB runner)"

definition GetCurrentAllocatedDiskGiB :: "RunnerFull \<Rightarrow> rat" where
  "GetCurrentAllocatedDiskGiB runner = orZero (runner_CurrentAllocatedDiskGiB runner)"

definition GetCurrentStartedSandboxes :: "RunnerFull \<Rightarrow> rat" where
  "GetCurrentStartedSandboxes runner = orZero (runner_CurrentStartedSandboxes runner)"

definition GetCurrentSnapshotCount :: "RunnerFull \<Rightarrow> rat" where
  "GetCurrentSnapshotCount runner = orZero (runner_CurrentSnapshotCount runner)"

definition GetUnschedulable :: "RunnerFull \<Rightarrow> bool" where
  "GetUnschedulable runner = runner_Unschedulable runner"

text \<open>
  A Kubernetes \<^verbatim>\<open>resource.Quantity\<close>, seen through the two readings the controller takes:
  \<^verbatim>\<open>MilliValue()\<close> and \<^verbatim>\<open>Value()\<close>. The zero value \<^verbatim>\<open>Quantity{}\<close>, which a Go map returns
  for a missing key, reads 0 in both.
\<close>

datatype Quantity = Quantity (MilliValue: int) (Value: int)

definition zeroQuantity :: Quantity where
  "zeroQuantity = Quantity 0 0"

text \<open>
  \<^verbatim>\<open>corev1.Node\<close>: \<^verbatim>\<open>Name\<close>, \<^verbatim>\<open>Spec.Unschedulable\<close>, the \<^verbatim>\<open>Address\<close> of each entry of
  \<^verbatim>\<open>Status.Addresses\<close>, and \<^verbatim>\<open>Status.Allocatable\<close> (a map from resource name to quantity).
  \<^verbatim>\<open>corev1.Pod\<close>: \<^verbatim>\<open>Name\<close> and \<^verbatim>\<open>Spec.NodeName\<close>.
\<close>

record K8sNode =
  node_Name :: string
  node_Unschedulable :: bool
  node_Addresses :: "string list"
  node_Allocatable :: "string \<rightharpoonup> Quantity"

record K8sPod =
  pod_Name :: string
  pod_NodeName :: string

definition ResourceCPU :: string where
  "ResourceCPU = ''cpu''"

definition ResourceMemory :: string where
  "ResourceMemory = ''memory''"

record Config =
  MaxResourceUtilizationPercent :: int
  MinIdleRunners :: int
  MinIdleCpu :: int
  MinIdleMemory :: int

record ClusterState =
  Runners :: "RunnerFull list"
  ActiveRunners :: "RunnerFull list"
  DeletableRunners :: "RunnerFull list"
  IdleRunners :: "RunnerFull list"
  RunnerByDomain :: "string \<rightharpoonup> RunnerFull"
  PendingPlaceholders :: "K8sPod list"
  ScheduledPlaceholders :: "K8sPod list"
  Nodes :: "K8sNode list"
  NodeByIP :: "string \<rightharpoonup> K8sNode"
  NascentNodes :: "K8sNode list"

record ResourceMetrics =
  TotalCPUCapacity :: rat
  TotalMemoryGiBCapacity :: rat
  TotalAllocatedCPU :: rat
  TotalAllocatedMemoryGiB :: rat
  TotalAvailableCPU :: rat
  TotalAvailableMemoryGiB :: rat
  AvgCpuPerNode :: rat
  AvgMemPerNode :: rat

section \<open>Runner manager: gatherClusterState\<close>

definition emptyClusterState :: ClusterState where
  "emptyClusterState = \<lparr> Runners = [], ActiveRunners = [], DeletableRunners = [],
     IdleRunners = [], RunnerByDomain = Map.empty, PendingPlaceholders = [],
     ScheduledPlaceholders = [], Nodes = [], NodeByIP = Map.empty, NascentNodes = [] \<rparr>"

definition isAllocated :: "RunnerFull \<Rightarrow> bool" where
  "isAllocated runner \<longleftrightarrow>
     GetCurrentAllocatedCpu runner > 0 \<or>
     GetCurrentAllocatedMemoryGiB runner > 0 \<or>
     GetCurrentAllocatedDiskGiB runner > 0 \<or>
     GetCurrentStartedSandboxes runner > 0 \<or>
     GetCurrentSnapshotCount runner > 0"

text \<open>One iteration of the loop over \<^verbatim>\<open>state.Runners\<close>, then the loop.\<close>

definition categorizeRunner :: "RunnerFull \<Rightarrow> ClusterState \<Rightarrow> ClusterState" where
  "categorizeRunner runner state =
     (let domain = GetDomain runner;
          state1 = (if domain \<noteq> ''''
                    then state\<lparr>RunnerByDomain := (RunnerByDomain state)(domain \<mapsto> runner)\<rparr>
                    else state)
      in if isAllocated runner
         then state1\<lparr>ActiveRunners := ActiveRunners state1 @ [runner]\<rparr>
         else if GetUnschedulable runner
         then state1\<lparr>DeletableRunners := DeletableRunners state1 @ [runner]\<rparr>
         else state1\<lparr>IdleRunners := IdleRunners state1 @ [runner]\<rparr>)"

fun categorizeRunners :: "RunnerFull list \<Rightarrow> ClusterState \<Rightarrow> ClusterState" where
  "categorizeRunners [] state = state"
| "categorizeRunners (runner # rest) state = categorizeRunners rest (categorizeRunner runner state)"

fun categorizePlaceholders :: "K8sPod list \<Rightarrow> ClusterState \<Rightarrow> ClusterState" where
  "categorizePlaceholders [] state = state"
| "categorizePlaceholders (pod # rest) state =
     categorizePlaceholders rest
       (if pod_NodeName pod = ''''
        then state\<lparr>PendingPlaceholders := PendingPlaceholders state @ [pod]\<rparr>
        else state\<lparr>ScheduledPlaceholders := ScheduledPlaceholders state @ [pod]\<rparr>)"

definition extractNodeIPs :: "K8sNode \<Rightarrow> string list" where
  "extractNodeIPs node = node_Addresses node"

fun indexNodeIPs :: "K8sNode \<Rightarrow> string list \<Rightarrow> (string \<rightharpoonup> K8sNode) \<Rightarrow> (string \<rightharpoonup> K8sNode)" where
  "indexNodeIPs node [] m = m"
| "indexNodeIPs node (ip # ips) m = indexNodeIPs node ips (m(ip \<mapsto> node))"

fun buildNodeByIP :: "K8sNode list \<Rightarrow> (string \<rightharpoonup> K8sNode) \<Rightarrow> (string \<rightharpoonup> K8sNode)" where
  "buildNodeByIP [] m = m"
| "buildNodeByIP (node # rest) m = buildNodeByIP rest (indexNodeIPs node (extractNodeIPs node) m)"

fun hasRunnerAt :: "(string \<rightharpoonup> RunnerFull) \<Rightarrow> string list \<Rightarrow> bool" where
  "hasRunnerAt byDomain [] = False"
| "hasRunnerAt byDomain (ip # ips) =
     (case byDomain ip of Some _ \<Rightarrow> True | None \<Rightarrow> hasRunnerAt byDomain ips)"

fun hasScheduledPlaceholder :: "K8sPod list \<Rightarrow> string \<Rightarrow> bool" where
  "hasScheduledPlaceholder [] nodeName = False"
| "hasScheduledPlaceholder (pod # pods) nodeName =
     (if pod_NodeName pod = nodeName then True else hasScheduledPlaceholder pods nodeName)"

fun identifyNascentNodes :: "K8sNode list \<Rightarrow> ClusterState \<Rightarrow> ClusterState" where
  "identifyNascentNodes [] state = state"
| "identifyNascentNodes (node # rest) state =
     identifyNascentNodes rest
       (if node_Unschedulable node then state
        else if \<not> hasRunnerAt (RunnerByDomain state) (extractNodeIPs node)
                \<and> hasScheduledPlaceholder (ScheduledPlaceholders state) (node_Name node)
        then state\<lparr>NascentNodes := NascentNodes state @ [node]\<rparr>
        else state)"

text \<open>
  The three fetches are inputs: each is the answer of the collaborator, an error message
  or the list. A failed fetch returns the wrapped error and no state.
\<close>

definition gatherClusterState ::
  "string + RunnerFull list \<Rightarrow> string + K8sPod list \<Rightarrow> string + K8sNode list
     \<Rightarrow> string + ClusterState" where
  "gatherClusterState listRunners listPods listNodes =
     (case listRunners of
        Inl err \<Rightarrow> Inl (''failed to list runners from Daytona API: '' @ err)
      | Inr runners \<Rightarrow>
          let state1 = categorizeRunners runners (emptyClusterState\<lparr>Runners := runners\<rparr>) in
          (case listPods of
             Inl err \<Rightarrow> Inl (''error listing placeholder pods: '' @ err)
           | Inr allPlaceholders \<Rightarrow>
               let state2 = categorizePlaceholders allPlaceholders state1 in
               (case listNodes of
                  Inl err \<Rightarrow> Inl (''error listing K8s nodes: '' @ err)
                | Inr nodes \<Rightarrow>
                    let state3 = state2\<lparr>Nodes := nodes\<rparr>;
                        state4 = state3\<lparr>NodeByIP := buildNodeByIP (Nodes state3) (NodeByIP state3)\<rparr>
                    in Inr (identifyNascentNodes (Nodes state4) state4))))"

section \<open>Runner manager: calculateResourceMetrics\<close>

definition getNodeAllocatableResources :: "K8sNode \<Rightarrow> rat \<times> rat \<times> string option" where
  "getNodeAllocatableResources node =
     (let cpuAllocatable = (case node_Allocatable node ResourceCPU of
                              None \<Rightarrow> zeroQuantity | Some q \<Rightarrow> q);
          memoryAllocatable = (case node_Allocatable node ResourceMemory of
                                 None \<Rightarrow> zeroQuantity | Some q \<Rightarrow> q);
          cpuCores = of_int (MilliValue cpuAllocatable) / 1000;
          memoryBytes = Value memoryAllocatable;
          memoryGiB = of_int memoryBytes / (1024 * 1024 * 1024)
      in (cpuCores, memoryGiB, None))"

text \<open>
  First loop: runner-reported capacity of the schedulable runners, and the names of the
  nodes their domains resolve to. The accumulator is (cpu, memory, nodesWithRunners).
\<close>

fun runnerCapacityLoop ::
  "(string \<rightharpoonup> K8sNode) \<Rightarrow> RunnerFull list \<Rightarrow> rat \<times> rat \<times> (string \<rightharpoonup> bool)
     \<Rightarrow> rat \<times> rat \<times> (string \<rightharpoonup> bool)" where
  "runnerCapacityLoop nodeByIP [] acc = acc"
| "runnerCapacityLoop nodeByIP (runner # rest) (cpu, mem, nodesWithRunners) =
     runnerCapacityLoop nodeByIP rest
       (if \<not> GetUnschedulable runner
        then (cpu + GetCpu runner, mem + GetMemory runner,
              (let domain = GetDomain runner in
               if domain \<noteq> ''''
               then (case nodeByIP domain of
                       Some node \<Rightarrow> nodesWithRunners(node_Name node \<mapsto> True)
                     | None \<Rightarrow> nodesWithRunners)
               else nodesWithRunners))
        else (cpu, mem, nodesWithRunners))"

text \<open>Reading a Go \<^verbatim>\<open>map[string]bool\<close>: a missing key reads \<^verbatim>\<open>false\<close>.\<close>

definition readBool :: "(string \<rightharpoonup> bool) \<Rightarrow> string \<Rightarrow> bool" where
  "readBool m k = (case m k of None \<Rightarrow> False | Some b \<Rightarrow> b)"

text \<open>Second loop: allocatable of the schedulable nodes without a runner.\<close>

fun nodeCapacityLoop :: "(string \<rightharpoonup> bool) \<Rightarrow> K8sNode list \<Rightarrow> rat \<times> rat \<Rightarrow> rat \<times> rat" where
  "nodeCapacityLoop nodesWithRunners [] acc = acc"
| "nodeCapacityLoop nodesWithRunners (node # rest) (cpu, mem) =
     nodeCapacityLoop nodesWithRunners rest
       (if node_Unschedulable node then (cpu, mem)
        else if readBool nodesWithRunners (node_Name node) then (cpu, mem)
        else (case getNodeAllocatableResources node of
                (nodeCpu, nodeMem, Some err) \<Rightarrow> (cpu, mem)
              | (nodeCpu, nodeMem, None) \<Rightarrow> (cpu + nodeCpu, mem + nodeMem)))"

text \<open>Third loop: allocated CPU and memory of the active runners.\<close>

fun allocatedLoop :: "RunnerFull list \<Rightarrow> rat \<times> rat \<Rightarrow> rat \<times> rat" where
  "allocatedLoop [] acc = acc"
| "allocatedLoop (runner # rest) (cpu, mem) =
     allocatedLoop rest
       ((case runner_CurrentAllocatedCpu runner of
           Some allocatedCPU \<Rightarrow> cpu + allocatedCPU | None \<Rightarrow> cpu),
        (case runner_CurrentAllocatedMemoryGiB runner of
           Some allocatedMemory \<Rightarrow> mem + allocatedMemory | None \<Rightarrow> mem))"

fun countSchedulable :: "K8sNode list \<Rightarrow> int \<Rightarrow> int" where
  "countSchedulable [] n = n"
| "countSchedulable (node # rest) n =
     countSchedulable rest (if \<not> node_Unschedulable node then n + 1 else n)"

definition calculateResourceMetrics :: "ClusterState \<Rightarrow> ResourceMetrics" where
  "calculateResourceMetrics state =
     (case runnerCapacityLoop (NodeByIP state) (Runners state) (0, 0, Map.empty) of
        (cpu1, mem1, nodesWithRunners) \<Rightarrow>
     (case nodeCapacityLoop nodesWithRunners (Nodes state) (cpu1, mem1) of
        (totalCpu, totalMem) \<Rightarrow>
     (case allocatedLoop (ActiveRunners state) (0, 0) of
        (allocCpu, allocMem) \<Rightarrow>
     (let schedulableNodeCount = countSchedulable (Nodes state) 0 in
      \<lparr> TotalCPUCapacity = totalCpu,
        TotalMemoryGiBCapacity = totalMem,
        TotalAllocatedCPU = allocCpu,
        TotalAllocatedMemoryGiB = allocMem,
        TotalAvailableCPU = totalCpu - allocCpu,
        TotalAvailableMemoryGiB = totalMem - allocMem,
        AvgCpuPerNode = (if schedulableNodeCount > 0
                         then totalCpu / of_int schedulableNodeCount else 0),
        AvgMemPerNode = (if schedulableNodeCount > 0
                         then totalMem / of_int schedulableNodeCount else 0) \<rparr>))))"

section \<open>Runner manager: scale-up\<close>

definition shouldScaleUp :: "ResourceMetrics \<Rightarrow> Config \<Rightarrow> int \<Rightarrow> int \<Rightarrow> bool" where
  "shouldScaleUp metrics cfg idleRunnersCount nascentNodesCount =
     (let isCpuUtilizationTooHigh =
            (if TotalCPUCapacity metrics > 0
             then (TotalAllocatedCPU metrics / TotalCPUCapacity metrics) * 100
                    > of_int (MaxResourceUtilizationPercent cfg)
             else False);
          isMemUtilizationTooHigh =
            (if TotalMemoryGiBCapacity metrics > 0
             then (TotalAllocatedMemoryGiB metrics / TotalMemoryGiBCapacity metrics) * 100
                    > of_int (MaxResourceUtilizationPercent cfg)
             else False);
          isUtilizationTooHigh = (isCpuUtilizationTooHigh \<or> isMemUtilizationTooHigh);
          totalIdleRunnersIncludingNascent = idleRunnersCount + nascentNodesCount;
          isIdleRunnerBufferTooLow = (totalIdleRunnersIncludingNascent < MinIdleRunners cfg);
          isCpuIdleTooLow = (TotalAvailableCPU metrics < of_int (MinIdleCpu cfg));
          isMemIdleTooLow = (TotalAvailableMemoryGiB metrics < of_int (MinIdleMemory cfg))
      in isUtilizationTooHigh \<or> isIdleRunnerBufferTooLow \<or> isCpuIdleTooLow \<or> isMemIdleTooLow)"

text \<open>
  \<^verbatim>\<open>handleScaleUp\<close> up to the assignment of \<^verbatim>\<open>nodesToCreate\<close>: the value of
  \<^verbatim>\<open>nodesNeededFromDeficit\<close> after the three deficits and the utilisation rule.
  \<^verbatim>\<open>int(math.Ceil(x / y))\<close> is the integer ceiling of the exact quotient.
\<close>

definition nodesNeededFromDeficit :: "Config \<Rightarrow> ClusterState \<Rightarrow> ResourceMetrics \<Rightarrow> int" where
  "nodesNeededFromDeficit cfg state metrics =
     (let isCpuUtilizationTooHigh =
            (if TotalCPUCapacity metrics > 0
             then (TotalAllocatedCPU metrics / TotalCPUCapacity metrics) * 100
                    > of_int (MaxResourceUtilizationPercent cfg)
             else False);
          isMemUtilizationTooHigh =
            (if TotalMemoryGiBCapacity metrics > 0
             then (TotalAllocatedMemoryGiB metrics / TotalMemoryGiBCapacity metrics) * 100
                    > of_int (MaxResourceUtilizationPercent cfg)
             else False);
          isUtilizationTooHigh = (isCpuUtilizationTooHigh \<or> isMemUtilizationTooHigh);
          totalIdleRunnersIncludingNascent =
            int (length (IdleRunners state)) + int (length (NascentNodes state));
          isIdleRunnerBufferTooLow = (totalIdleRunnersIncludingNascent < MinIdleRunners cfg);
          isCpuIdleTooLow = (TotalAvailableCPU metrics < of_int (MinIdleCpu cfg));
          isMemIdleTooLow = (TotalAvailableMemoryGiB metrics < of_int (MinIdleMemory cfg));
          needed0 = (0::int);
          needed1 = (if isCpuIdleTooLow \<and> AvgCpuPerNode metrics > 0
                     then max needed0
                            \<lceil>(of_int (MinIdleCpu cfg) - TotalAvailableCPU metrics)
                               / AvgCpuPerNode metrics\<rceil>
                     else needed0);
          needed2 = (if isMemIdleTooLow \<and> AvgMemPerNode metrics > 0
                     then max needed1
                            \<lceil>(of_int (MinIdleMemory cfg) - TotalAvailableMemoryGiB metrics)
                               / AvgMemPerNode metrics\<rceil>
                     else needed1);
          needed3 = (if isIdleRunnerBufferTooLow
                     then max needed2 (MinIdleRunners cfg - totalIdleRunnersIncludingNascent)
                     else needed2)
      in if isUtilizationTooHigh \<and> needed3 = 0 then 1 else needed3)"

definition nodesToCreate :: "Config \<Rightarrow> ClusterState \<Rightarrow> ResourceMetrics \<Rightarrow> int" where
  "nodesToCreate cfg state metrics =
     nodesNeededFromDeficit cfg state metrics - int (length (PendingPlaceholders state))"

text \<open>
  What the controller asks of Kubernetes. A created placeholder gets a fresh generated
  name, which no decision reads; a deletion names its pod.
\<close>

datatype KubeAction = CreatePlaceholderPod | DeletePod string

text \<open>
  \<^verbatim>\<open>handleScaleUp\<close>: the requests it issues (one creation per loop iteration, whether or
  not the API call then succeeds) and its boolean result.
\<close>

definition handleScaleUp :: "Config \<Rightarrow> ClusterState \<Rightarrow> ResourceMetrics \<Rightarrow> KubeAction list \<times> bool" where
  "handleScaleUp cfg state metrics =
     (if nodesToCreate cfg state metrics > 0
      then (replicate (nat (nodesToCreate cfg state metrics)) CreatePlaceholderPod, True)
      else ([], False))"

section \<open>Runner manager: scale-down\<close>

fun findPlaceholderOnNode :: "K8sPod list \<Rightarrow> string \<Rightarrow> K8sPod option" where
  "findPlaceholderOnNode [] nodeName = None"
| "findPlaceholderOnNode (pod # pods) nodeName =
     (if pod_NodeName pod = nodeName then Some pod else findPlaceholderOnNode pods nodeName)"

text \<open>
  The body of the loop over \<^verbatim>\<open>state.DeletableRunners\<close>; \<open>batch\<close> is
  \<^verbatim>\<open>placeholdersToDeleteInBatch\<close>.
\<close>

definition scaleDownStep ::
  "Config \<Rightarrow> ClusterState \<Rightarrow> ResourceMetrics \<Rightarrow> RunnerFull \<Rightarrow> K8sPod list \<Rightarrow> K8sPod list" where
  "scaleDownStep cfg state metrics runnerToScaleDown batch =
     (let domainToScaleDown = GetDomain runnerToScaleDown in
      if domainToScaleDown = '''' then batch
      else case NodeByIP state domainToScaleDown of
        None \<Rightarrow> batch
      | Some k8sNode \<Rightarrow>
          (let nodeName = node_Name k8sNode in
           case getNodeAllocatableResources k8sNode of
             (nodeCpuCapacity, nodeMemCapacity, Some err) \<Rightarrow> batch
           | (nodeCpuCapacity, nodeMemCapacity, None) \<Rightarrow>
               (let hypotheticalAvailableCpu = TotalAvailableCPU metrics - nodeCpuCapacity;
                    hypotheticalAvailableMemoryGiB =
                      TotalAvailableMemoryGiB metrics - nodeMemCapacity;
                    isSafeToDelete0 = True;
                    isSafeToDelete1 =
                      (if hypotheticalAvailableCpu < of_int (MinIdleCpu cfg)
                       then False else isSafeToDelete0);
                    isSafeToDelete =
                      (if hypotheticalAvailableMemoryGiB < of_int (MinIdleMemory cfg)
                       then False else isSafeToDelete1)
                in if \<not> isSafeToDelete then batch
                   else case findPlaceholderOnNode (ScheduledPlaceholders state) nodeName of
                          Some placeholderFound \<Rightarrow> batch @ [placeholderFound]
                        | None \<Rightarrow> batch)))"

fun scaleDownLoop ::
  "Config \<Rightarrow> ClusterState \<Rightarrow> ResourceMetrics \<Rightarrow> RunnerFull list \<Rightarrow> K8sPod list \<Rightarrow> K8sPod list" where
  "scaleDownLoop cfg state metrics [] batch = batch"
| "scaleDownLoop cfg state metrics (runner # rest) batch =
     scaleDownLoop cfg state metrics rest (scaleDownStep cfg state metrics runner batch)"

definition placeholdersToDeleteInBatch ::
  "Config \<Rightarrow> ClusterState \<Rightarrow> ResourceMetrics \<Rightarrow> K8sPod list" where
  "placeholdersToDeleteInBatch cfg state metrics =
     scaleDownLoop cfg state metrics (DeletableRunners state) []"

definition handleScaleDown ::
  "Config \<Rightarrow> ClusterState \<Rightarrow> ResourceMetrics \<Rightarrow> bool \<Rightarrow> KubeAction list" where
  "handleScaleDown cfg state metrics needsScaleUp =
     (if \<not> needsScaleUp \<and> length (PendingPlaceholders state) > 0
      then map (\<lambda>pendingPod. DeletePod (pod_Name pendingPod)) (PendingPlaceholders state)
      else [])
     @ (if length (DeletableRunners state) = 0 then []
        else map (\<lambda>pod. DeletePod (pod_Name pod)) (placeholdersToDeleteInBatch cfg state metrics))"

text \<open>One pass of \<^verbatim>\<open>runControllerLoop\<close> over an already gathered state.\<close>

definition controllerTick :: "Config \<Rightarrow> ClusterState \<Rightarrow> KubeAction list" where
  "controllerTick cfg state =
     (let metrics = calculateResourceMetrics state;
          needsScaleUp = shouldScaleUp metrics cfg (int (length (IdleRunners state)))
                           (int (length (NascentNodes state)))
      in if needsScaleUp
         then (case handleScaleUp cfg state metrics of
                 (actions, True) \<Rightarrow> actions
               | (actions, False) \<Rightarrow> actions @ handleScaleDown cfg state metrics needsScaleUp)
         else handleScaleDown cfg state metrics needsScaleUp)"

section \<open>Preview proxy: the request, the response and the collaborators\<close>

text \<open>
  The part of \<^verbatim>\<open>gin.Context\<close> that \<^verbatim>\<open>Authenticate\<close> reads and writes: the request
  (headers under their canonical names, the parsed query, the cookies, the host), the
  redirect and the cookies written to the response, and the calls made to the
  collaborators, in order. Log lines and durations are left out.
\<close>

record Request =
  req_Header :: "string \<rightharpoonup> string list"
  req_Query :: "string \<rightharpoonup> string list"
  req_Cookies :: "string \<rightharpoonup> string"
  req_Host :: string

record SetCookie =
  cookie_Name :: string
  cookie_Value :: string
  cookie_MaxAge :: int
  cookie_Path :: string
  cookie_Domain :: string
  cookie_Secure :: bool
  cookie_HttpOnly :: bool

datatype Call =
    CallBearerTokenValid string string
  | CallAuthKeyValid string string
  | CallCookieDecode string string
  | CallSignedPreviewUrlToken string rat
  | CallCookieEncode string string
  | CallAuthUrl string

record Context =
  ctx_Request :: Request
  ctx_Redirect :: "(int \<times> string) option"
  ctx_SetCookies :: "SetCookie list"
  ctx_Calls :: "Call list"

text \<open>
  The proxy: the three names (constants declared in another file of the package), the
  TLS switch, and the collaborators, each a function from its arguments to an error
  message (\<open>Inl\<close>) or its answer. A validator answers a \<^verbatim>\<open>*bool\<close>, which may be nil.
\<close>

record Proxy =
  SANDBOX_AUTH_KEY_HEADER :: string
  SANDBOX_AUTH_KEY_QUERY_PARAM :: string
  SANDBOX_AUTH_COOKIE_NAME :: string
  EnableTLS :: bool
  getSandboxBearerTokenValid :: "string \<Rightarrow> string \<Rightarrow> string + bool option"
  getSandboxAuthKeyValid :: "string \<Rightarrow> string \<Rightarrow> string + bool option"
  secureCookieDecode :: "string \<Rightarrow> string \<Rightarrow> string + string"
  secureCookieEncode :: "string \<Rightarrow> string \<Rightarrow> string + string"
  previewApiGetSandboxId :: "string \<Rightarrow> rat \<Rightarrow> string + string"
  getAuthUrl :: "Request \<Rightarrow> string \<Rightarrow> string + string"
  getCookieDomain :: "string \<Rightarrow> string"

record AuthResult =
  sandboxId :: string
  didRedirect :: bool
  err :: "string option"

datatype Step = Return Context AuthResult | Continue Context "string list"

subsection \<open>Library readings\<close>

text \<open>
  \<^verbatim>\<open>Header.Get\<close> reads the first value under a key and the empty string when there is none;
  \<^verbatim>\<open>ctx.Query\<close> does the same on the parsed query; deleting a query parameter and
  re-encoding the query is the deletion of its key. \<^verbatim>\<open>strings.TrimSpace\<close> is modelled on
  ASCII white space, which is all it removes from an ASCII header value.
\<close>

definition headerGet :: "Request \<Rightarrow> string \<Rightarrow> string" where
  "headerGet req key = (case req_Header req key of Some (v # _) \<Rightarrow> v | _ \<Rightarrow> '''')"

definition headerDel :: "Request \<Rightarrow> string \<Rightarrow> Request" where
  "headerDel req key = req\<lparr>req_Header := (req_Header req)(key := None)\<rparr>"

definition ctxQuery :: "Request \<Rightarrow> string \<Rightarrow> string" where
  "ctxQuery req key = (case req_Query req key of Some (v # _) \<Rightarrow> v | _ \<Rightarrow> '''')"

definition queryDel :: "Request \<Rightarrow> string \<Rightarrow> Request" where
  "queryDel req key = req\<lparr>req_Query := (req_Query req)(key := None)\<rparr>"

definition HasPrefix :: "string \<Rightarrow> string \<Rightarrow> bool" where
  "HasPrefix s pre \<longleftrightarrow> take (length pre) s = pre"

definition TrimPrefix :: "string \<Rightarrow> string \<Rightarrow> string" where
  "TrimPrefix s pre = (if HasPrefix s pre then drop (length pre) s else s)"

definition isSpace :: "char \<Rightarrow> bool" where
  "isSpace c \<longleftrightarrow> c \<in> {CHR 0x09, CHR 0x0A, CHR 0x0B, CHR 0x0C, CHR 0x0D, CHR '' ''}"

definition TrimSpace :: "string \<Rightarrow> string" where
  "TrimSpace s = rev (dropWhile isSpace (rev (dropWhile isSpace s)))"

fun Join :: "string list \<Rightarrow> string \<Rightarrow> string" where
  "Join [] sep = ''''"
| "Join [x] sep = x"
| "Join (x # y # rest) sep = x @ sep @ Join (y # rest) sep"

definition logCall :: "Context \<Rightarrow> Call \<Rightarrow> Context" where
  "logCall ctx c = ctx\<lparr>ctx_Calls := ctx_Calls ctx @ [c]\<rparr>"

definition succeed :: "string \<Rightarrow> AuthResult" where
  "succeed sid = \<lparr> sandboxId = sid, didRedirect = False, err = None \<rparr>"

definition missingAuthentication :: string where
  "missingAuthentication = ''missing authentication: provide a preview access token (via header, query parameter, or cookie) or use an API key or JWT''"

subsection \<open>Authenticate, one attempt after the other\<close>

text \<open>Authorization header with a Bearer token.\<close>

definition tryBearer :: "Proxy \<Rightarrow> string \<Rightarrow> Context \<Rightarrow> string list \<Rightarrow> Step" where
  "tryBearer p sandboxIdOrSignedToken ctx authErrors =
     (let authHeader = headerGet (ctx_Request ctx) ''Authorization'' in
      if authHeader \<noteq> '''' \<and> HasPrefix authHeader ''Bearer ''
      then (let bearerToken = TrimSpace (TrimPrefix authHeader ''Bearer '');
                ctx1 = logCall ctx (CallBearerTokenValid sandboxIdOrSignedToken bearerToken)
            in case getSandboxBearerTokenValid p sandboxIdOrSignedToken bearerToken of
                 Inl e \<Rightarrow> Continue ctx1 (authErrors @ [''Bearer token validation error: '' @ e])
               | Inr isValid \<Rightarrow>
                   if isValid = Some True
                   then Return ctx1 (succeed sandboxIdOrSignedToken)
                   else Continue ctx1 (authErrors @ [''Bearer token is invalid'']))
      else Continue ctx authErrors)"

text \<open>Auth key from the header; the header is deleted before the key is validated.\<close>

definition tryAuthKeyHeader :: "Proxy \<Rightarrow> string \<Rightarrow> Context \<Rightarrow> string list \<Rightarrow> Step" where
  "tryAuthKeyHeader p sandboxIdOrSignedToken ctx authErrors =
     (let authKey = headerGet (ctx_Request ctx) (SANDBOX_AUTH_KEY_HEADER p) in
      if authKey \<noteq> ''''
      then (let ctx0 = ctx\<lparr>ctx_Request := headerDel (ctx_Request ctx) (SANDBOX_AUTH_KEY_HEADER p)\<rparr>;
                ctx1 = logCall ctx0 (CallAuthKeyValid sandboxIdOrSignedToken authKey)
            in case getSandboxAuthKeyValid p sandboxIdOrSignedToken authKey of
                 Inl e \<Rightarrow> Continue ctx1 (authErrors @ [''Auth key header validation error: '' @ e])
               | Inr isValid \<Rightarrow>
                   if isValid = Some True
                   then Return ctx1 (succeed sandboxIdOrSignedToken)
                   else Continue ctx1 (authErrors @ [''Auth key header is invalid'']))
      else Continue ctx authErrors)"

text \<open>Auth key from the query parameter; on success the parameter is removed.\<close>

definition tryAuthKeyQuery :: "Proxy \<Rightarrow> string \<Rightarrow> Context \<Rightarrow> string list \<Rightarrow> Step" where
  "tryAuthKeyQuery p sandboxIdOrSignedToken ctx authErrors =
     (let queryAuthKey = ctxQuery (ctx_Request ctx) (SANDBOX_AUTH_KEY_QUERY_PARAM p) in
      if queryAuthKey \<noteq> ''''
      then (let ctx1 = logCall ctx (CallAuthKeyValid sandboxIdOrSignedToken queryAuthKey)
            in case getSandboxAuthKeyValid p sandboxIdOrSignedToken queryAuthKey of
                 Inl e \<Rightarrow>
                   Continue ctx1 (authErrors @ [''Auth key query param validation error: '' @ e])
               | Inr isValid \<Rightarrow>
                   if isValid = Some True
                   then Return
                          (ctx1\<lparr>ctx_Request :=
                                  queryDel (ctx_Request ctx1) (SANDBOX_AUTH_KEY_QUERY_PARAM p)\<rparr>)
                          (succeed sandboxIdOrSignedToken)
                   else Continue ctx1 (authErrors @ [''Auth key query parameter is invalid'']))
      else Continue ctx authErrors)"

text \<open>Cookie authentication.\<close>

definition tryCookie :: "Proxy \<Rightarrow> string \<Rightarrow> Context \<Rightarrow> string list \<Rightarrow> Step" where
  "tryCookie p sandboxIdOrSignedToken ctx authErrors =
     (let cookieName = SANDBOX_AUTH_COOKIE_NAME p @ sandboxIdOrSignedToken in
      case req_Cookies (ctx_Request ctx) cookieName of
        None \<Rightarrow> Continue ctx authErrors
      | Some cookieValue \<Rightarrow>
          if cookieValue \<noteq> ''''
          then (let ctx1 = logCall ctx (CallCookieDecode cookieName cookieValue)
                in case secureCookieDecode p cookieName cookieValue of
                     Inl e \<Rightarrow> Continue ctx1 (authErrors @ [''Cookie decoding error: '' @ e])
                   | Inr decodedValue \<Rightarrow>
                       if decodedValue = sandboxIdOrSignedToken
                       then Return ctx1 (succeed sandboxIdOrSignedToken)
                       else Continue ctx1 authErrors)
          else Continue ctx authErrors)"

definition getSandboxIdFromSignedPreviewUrlToken ::
  "Proxy \<Rightarrow> Context \<Rightarrow> string \<Rightarrow> rat \<Rightarrow> string \<Rightarrow> Context \<times> (string + string)" where
  "getSandboxIdFromSignedPreviewUrlToken p ctx sandboxIdOrSignedToken port cookieDomain =
     (let ctx1 = logCall ctx (CallSignedPreviewUrlToken sandboxIdOrSignedToken port) in
      case previewApiGetSandboxId p sandboxIdOrSignedToken port of
        Inl e \<Rightarrow> (ctx1, Inl (''failed to get sandbox ID: '' @ e @ ''. Is the token expired?''))
      | Inr sid \<Rightarrow>
          (let ctx2 = logCall ctx1 (CallCookieEncode (SANDBOX_AUTH_COOKIE_NAME p @ sid) sid) in
           case secureCookieEncode p (SANDBOX_AUTH_COOKIE_NAME p @ sid) sid of
             Inl e \<Rightarrow> (ctx2, Inl (''failed to encode cookie: '' @ e))
           | Inr encoded \<Rightarrow>
               (ctx2\<lparr>ctx_SetCookies := ctx_SetCookies ctx2 @
                   [\<lparr> cookie_Name = SANDBOX_AUTH_COOKIE_NAME p @ sid, cookie_Value = encoded,
                      cookie_MaxAge = 3600, cookie_Path = ''/'', cookie_Domain = cookieDomain,
                      cookie_Secure = EnableTLS p, cookie_HttpOnly = True \<rparr>]\<rparr>,
                Inr sid)))"

text \<open>The signed-token exchange and, when it fails too, the redirect.\<close>

definition signedTokenOrRedirect ::
  "Proxy \<Rightarrow> string \<Rightarrow> rat \<Rightarrow> Context \<Rightarrow> string list \<Rightarrow> Context \<times> AuthResult" where
  "signedTokenOrRedirect p sandboxIdOrSignedToken port ctx authErrors =
     (let cookieDomain = getCookieDomain p (req_Host (ctx_Request ctx)) in
      case getSandboxIdFromSignedPreviewUrlToken p ctx sandboxIdOrSignedToken port cookieDomain of
        (ctx1, Inr sid) \<Rightarrow> (ctx1, succeed sid)
      | (ctx1, Inl e) \<Rightarrow>
          (let authErrors1 = authErrors @ [e];
               ctx2 = logCall ctx1 (CallAuthUrl sandboxIdOrSignedToken)
           in case getAuthUrl p (ctx_Request ctx1) sandboxIdOrSignedToken of
                Inl e2 \<Rightarrow>
                  (ctx2, \<lparr> sandboxId = sandboxIdOrSignedToken, didRedirect = False,
                           err = Some (''failed to get auth URL: '' @ e2) \<rparr>)
              | Inr authUrl \<Rightarrow>
                  (ctx2\<lparr>ctx_Redirect := Some (307, authUrl)\<rparr>,
                   \<lparr> sandboxId = sandboxIdOrSignedToken, didRedirect = True,
                     err = Some (if length authErrors1 > 0
                                 then ''authentication failed:'' @ [CHR 0x0A]
                                        @ Join authErrors1 ([CHR 0x0A] @ '';'' @ [CHR 0x0A])
                                 else missingAuthentication) \<rparr>)))"

definition Authenticate :: "Proxy \<Rightarrow> Context \<Rightarrow> string \<Rightarrow> rat \<Rightarrow> Context \<times> AuthResult" where
  "Authenticate p ctx sandboxIdOrSignedToken port =
     (case tryBearer p sandboxIdOrSignedToken ctx [] of
        Return ctx1 r \<Rightarrow> (ctx1, r)
      | Continue ctx1 authErrors1 \<Rightarrow>
     (case tryAuthKeyHeader p sandboxIdOrSignedToken ctx1 authErrors1 of
        Return ctx2 r \<Rightarrow> (ctx2, r)
      | Continue ctx2 authErrors2 \<Rightarrow>
     (case tryAuthKeyQuery p sandboxIdOrSignedToken ctx2 authErrors2 of
        Return ctx3 r \<Rightarrow> (ctx3, r)
      | Continue ctx3 authErrors3 \<Rightarrow>
     (case tryCookie p sandboxIdOrSignedToken ctx3 authErrors3 of
        Return ctx4 r \<Rightarrow> (ctx4, r)
      | Continue ctx4 authErrors4 \<Rightarrow>
          signedTokenOrRedirect p sandboxIdOrSignedToken port ctx4 authErrors4))))"

section \<open>A small cluster and a few requests, used to exercise the theorems\<close>

definition exActive :: RunnerFull where
  "exActive = \<lparr> runner_Name = ''runner-a'', runner_Domain = Some ''10.0.0.1'',
     runner_Cpu = 8, runner_Memory = 16,
     runner_CurrentAllocatedCpu = Some 2, runner_CurrentAllocatedMemoryGiB = Some 4,
     runner_CurrentAllocatedDiskGiB = None, runner_CurrentStartedSandboxes = Some 1,
     runner_CurrentSnapshotCount = None, runner_Unschedulable = False \<rparr>"

definition exIdle :: RunnerFull where
  "exIdle = \<lparr> runner_Name = ''runner-b'', runner_Domain = Some ''10.0.0.2'',
     runner_Cpu = 8, runner_Memory = 16,
     runner_CurrentAllocatedCpu = Some 0, runner_CurrentAllocatedMemoryGiB = None,
     runner_CurrentAllocatedDiskGiB = None, runner_CurrentStartedSandboxes = None,
     runner_CurrentSnapshotCount = None, runner_Unschedulable = False \<rparr>"

definition exDeletable :: RunnerFull where
  "exDeletable = \<lparr> runner_Name = ''runner-c'', runner_Domain = Some ''10.0.0.3'',
     runner_Cpu = 8, runner_Memory = 16,
     runner_CurrentAllocatedCpu = None, runner_CurrentAllocatedMemoryGiB = None,
     runner_CurrentAllocatedDiskGiB = None, runner_CurrentStartedSandboxes = None,
     runner_CurrentSnapshotCount = None, runner_Unschedulable = True \<rparr>"

definition exRunners :: "RunnerFull list" where
  "exRunners = [exActive, exDeletable, exIdle]"

definition exAllocatable :: "string \<rightharpoonup> Quantity" where
  "exAllocatable = [''cpu'' \<mapsto> Quantity 8000 8, ''memory'' \<mapsto> Quantity 17179869184000 17179869184]"

definition exNodeA :: K8sNode where
  "exNodeA = \<lparr> node_Name = ''node-a'', node_Unschedulable = False,
     node_Addresses = [''10.0.0.1''], node_Allocatable = exAllocatable \<rparr>"

definition exNodeB :: K8sNode where
  "exNodeB = \<lparr> node_Name = ''node-b'', node_Unschedulable = False,
     node_Addresses = [''10.0.0.2''], node_Allocatable = exAllocatable \<rparr>"

definition exNodeC :: K8sNode where
  "exNodeC = \<lparr> node_Name = ''node-c'', node_Unschedulable = False,
     node_Addresses = [''10.0.0.3''], node_Allocatable = exAllocatable \<rparr>"

definition exNodeD :: K8sNode where
  "exNodeD = \<lparr> node_Name = ''node-d'', node_Unschedulable = False,
     node_Addresses = [''10.0.0.4''], node_Allocatable = exAllocatable \<rparr>"

definition exNodes :: "K8sNode list" where
  "exNodes = [exNodeA, exNodeB, exNodeC, exNodeD]"

definition exPodPending :: K8sPod where
  "exPodPending = \<lparr> pod_Name = ''placeholder-p'', pod_NodeName = '''' \<rparr>"

definition exPodC :: K8sPod where
  "exPodC = \<lparr> pod_Name = ''placeholder-c'', pod_NodeName = ''node-c'' \<rparr>"

definition exPodD :: K8sPod where
  "exPodD = \<lparr> pod_Name = ''placeholder-d'', pod_NodeName = ''node-d'' \<rparr>"

definition exPods :: "K8sPod list" where
  "exPods = [exPodPending, exPodC, exPodD]"

definition exCluster :: ClusterState where
  "exCluster = \<lparr> Runners = exRunners, ActiveRunners = [exActive],
     DeletableRunners = [exDeletable], IdleRunners = [exIdle],
     RunnerByDomain = [''10.0.0.1'' \<mapsto> exActive, ''10.0.0.3'' \<mapsto> exDeletable,
                       ''10.0.0.2'' \<mapsto> exIdle],
     PendingPlaceholders = [exPodPending], ScheduledPlaceholders = [exPodC, exPodD],
     Nodes = exNodes,
     NodeByIP = [''10.0.0.1'' \<mapsto> exNodeA, ''10.0.0.2'' \<mapsto> exNodeB,
                 ''10.0.0.3'' \<mapsto> exNodeC, ''10.0.0.4'' \<mapsto> exNodeD],
     NascentNodes = [exNodeD] \<rparr>"

definition exMetrics :: ResourceMetrics where
  "exMetrics = \<lparr> TotalCPUCapacity = 32, TotalMemoryGiBCapacity = 64,
     TotalAllocatedCPU = 2, TotalAllocatedMemoryGiB = 4,
     TotalAvailableCPU = 30, TotalAvailableMemoryGiB = 60,
     AvgCpuPerNode = 8, AvgMemPerNode = 16 \<rparr>"

definition exConfig :: Config where
  "exConfig = \<lparr> MaxResourceUtilizationPercent = 80, MinIdleRunners = 1,
     MinIdleCpu = 16, MinIdleMemory = 32 \<rparr>"

text \<open>A node that reports no allocatable resources, under a Deletable runner.\<close>

definition exBareNode :: K8sNode where
  "exBareNode = \<lparr> node_Name = ''node-c'', node_Unschedulable = False,
     node_Addresses = [''10.0.0.3''], node_Allocatable = Map.empty \<rparr>"

definition exBareCluster :: ClusterState where
  "exBareCluster = exCluster\<lparr> Nodes := [exNodeA, exNodeB, exBareNode, exNodeD],
     NodeByIP := (NodeByIP exCluster)(''10.0.0.3'' \<mapsto> exBareNode) \<rparr>"

text \<open>The example cluster with two placeholders still pending.\<close>

definition exPodPending2 :: K8sPod where
  "exPodPending2 = \<lparr> pod_Name = ''placeholder-q'', pod_NodeName = '''' \<rparr>"

definition exTwoPending :: ClusterState where
  "exTwoPending = exCluster\<lparr> PendingPlaceholders := [exPodPending, exPodPending2] \<rparr>"

section \<open>Readings used to state the scale-up properties\<close>

text \<open>The number of placeholder pods a list of requests creates.\<close>

definition podsCreated :: "KubeAction list \<Rightarrow> nat" where
  "podsCreated actions = length (filter (\<lambda>a. a = CreatePlaceholderPod) actions)"


text \<open>The example configuration with a larger CPU minimum.\<close>

definition exConfigHigh :: Config where
  "exConfigHigh = exConfig\<lparr> MinIdleCpu := MinIdleCpu exConfig + 22 \<rparr>"

section \<open>Readings used to state the capacity property\<close>



section \<open>Examples for the preview proxy\<close>

text \<open>
  A proxy whose collaborators are simple enough to run: one bearer token and one auth key
  are valid, a cookie value is the cookie's name, a bar and the plain text, one path
  token is a signed preview token for \<open>sb1\<close>.
\<close>

definition exDecode :: "string \<Rightarrow> string \<Rightarrow> string + string" where
  "exDecode name v =
     (if take (length name + 1) v = name @ ''|'' then Inr (drop (length name + 1) v)
      else Inl ''bad cookie'')"

definition exProxy :: Proxy where
  "exProxy = \<lparr> SANDBOX_AUTH_KEY_HEADER = ''X-Preview-Token'',
     SANDBOX_AUTH_KEY_QUERY_PARAM = ''AUTH_KEY'',
     SANDBOX_AUTH_COOKIE_NAME = ''auth-'',
     EnableTLS = True,
     getSandboxBearerTokenValid = (\<lambda>sid token. Inr (Some (token = ''jwt''))),
     getSandboxAuthKeyValid = (\<lambda>sid key. Inr (Some (key = ''key''))),
     secureCookieDecode = exDecode,
     secureCookieEncode = (\<lambda>name v. Inr (name @ ''|'' @ v)),
     previewApiGetSandboxId =
       (\<lambda>token port. if token = ''signed'' then Inr ''sb1'' else Inl ''404''),
     getAuthUrl = (\<lambda>req token. Inr (''https://auth/'' @ token)),
     getCookieDomain = (\<lambda>host. host) \<rparr>"

text \<open>The same proxy with a cookie codec that cannot encode.\<close>

definition exProxyNoEncode :: Proxy where
  "exProxyNoEncode = exProxy\<lparr> secureCookieEncode := (\<lambda>name v. Inl ''no key'') \<rparr>"

definition exContext :: "Request \<Rightarrow> Context" where
  "exContext req = \<lparr> ctx_Request = req, ctx_Redirect = None, ctx_SetCookies = [],
     ctx_Calls = [] \<rparr>"

text \<open>A request with a valid bearer token and an auth-key header.\<close>

definition exReqBearerAndKey :: Request where
  "exReqBearerAndKey = \<lparr> req_Header = [''Authorization'' \<mapsto> [''Bearer jwt''],
       ''X-Preview-Token'' \<mapsto> [''key'']],
     req_Query = Map.empty, req_Cookies = Map.empty, req_Host = ''proxy'' \<rparr>"

text \<open>A request with an invalid bearer token and an auth-key header.\<close>

definition exReqBadBearerAndKey :: Request where
  "exReqBadBearerAndKey = \<lparr> req_Header = [''Authorization'' \<mapsto> [''Bearer old''],
       ''X-Preview-Token'' \<mapsto> [''key'']],
     req_Query = Map.empty, req_Cookies = Map.empty, req_Host = ''proxy'' \<rparr>"

text \<open>A request with no credentials at all.\<close>

definition exReqNoCredentials :: Request where
  "exReqNoCredentials = \<lparr> req_Header = Map.empty, req_Query = Map.empty,
     req_Cookies = Map.empty, req_Host = ''proxy'' \<rparr>"

text \<open>A request whose cookie for \<open>sb1\<close> decodes, to another sandbox's id.\<close>

definition exReqOtherCookie :: Request where
  "exReqOtherCookie = \<lparr> req_Header = Map.empty, req_Query = Map.empty,
     req_Cookies = [''auth-sb1'' \<mapsto> ''auth-sb1|sb2''], req_Host = ''proxy'' \<rparr>"

text \<open>A request whose cookie for \<open>sb1\<close> does not decode.\<close>

definition exReqBrokenCookie :: Request where
  "exReqBrokenCookie = \<lparr> req_Header = Map.empty, req_Query = Map.empty,
     req_Cookies = [''auth-sb1'' \<mapsto> ''garbage''], req_Host = ''proxy'' \<rparr>"

definition newline :: string where
  "newline = [CHR 0x0A]"

section \<open>Readings used to state the proxy properties\<close>

text \<open>
  Two runs of \<^verbatim>\<open>Authenticate\<close> that a client and the caller cannot tell apart but for the
  wording of the error: the same forwarded request, the same redirect, the same cookies
  written, the same sandbox id and redirect flag, and an error in both or in neither.
\<close>

definition sameOutcome :: "Context \<times> AuthResult \<Rightarrow> Context \<times> AuthResult \<Rightarrow> bool" where
  "sameOutcome a b \<longleftrightarrow>
     ctx_Request (fst a) = ctx_Request (fst b) \<and>
     ctx_Redirect (fst a) = ctx_Redirect (fst b) \<and>
     ctx_SetCookies (fst a) = ctx_SetCookies (fst b) \<and>
     sandboxId (snd a) = sandboxId (snd b) \<and>
     didRedirect (snd a) = didRedirect (snd b) \<and>
     (err (snd a) = None) = (err (snd b) = None)"

section \<open>The example cluster is a state the controller gathers\<close>

lemmas runner_getters =
  GetName_def GetDomain_def GetCpu_def GetMemory_def GetUnschedulable_def
  GetCurrentAllocatedCpu_def GetCurrentAllocatedMemoryGiB_def GetCurrentAllocatedDiskGiB_def
  GetCurrentStartedSandboxes_def GetCurrentSnapshotCount_def orZero_def

lemmas ex_runner_defs = exRunners_def exActive_def exIdle_def exDeletable_def

lemmas ex_node_defs = exNodes_def exNodeA_def exNodeB_def exNodeC_def exNodeD_def
  exAllocatable_def

lemmas ex_pod_defs = exPods_def exPodPending_def exPodC_def exPodD_def

lemma exCluster_gathered:
  "gatherClusterState (Inr exRunners) (Inr exPods) (Inr exNodes) = Inr exCluster"
  by (simp add: gatherClusterState_def emptyClusterState_def exCluster_def
        categorizeRunner_def isAllocated_def Let_def extractNodeIPs_def
        runner_getters ex_runner_defs ex_node_defs ex_pod_defs)

lemma exMetrics_calculated:
  "calculateResourceMetrics exCluster = exMetrics"
  by (simp add: calculateResourceMetrics_def exCluster_def exMetrics_def Let_def
        getNodeAllocatableResources_def readBool_def ResourceCPU_def ResourceMemory_def
        zeroQuantity_def runner_getters ex_runner_defs ex_node_defs)

section \<open>Facts about gatherClusterState\<close>

lemma categorizeRunner_Active:
  "ActiveRunners (categorizeRunner r st) = ActiveRunners st @ filter isAllocated [r]"
  by (simp add: categorizeRunner_def Let_def)

lemma categorizeRunner_Deletable:
  "DeletableRunners (categorizeRunner r st) =
     DeletableRunners st @ filter (\<lambda>r. \<not> isAllocated r \<and> GetUnschedulable r) [r]"
  by (simp add: categorizeRunner_def Let_def)

lemma categorizeRunner_Idle:
  "IdleRunners (categorizeRunner r st) =
     IdleRunners st @ filter (\<lambda>r. \<not> isAllocated r \<and> \<not> GetUnschedulable r) [r]"
  by (simp add: categorizeRunner_def Let_def)

lemma categorizeRunner_frame:
  "Runners (categorizeRunner r st) = Runners st"
  "PendingPlaceholders (categorizeRunner r st) = PendingPlaceholders st"
  "ScheduledPlaceholders (categorizeRunner r st) = ScheduledPlaceholders st"
  "Nodes (categorizeRunner r st) = Nodes st"
  "NodeByIP (categorizeRunner r st) = NodeByIP st"
  "NascentNodes (categorizeRunner r st) = NascentNodes st"
  by (simp_all add: categorizeRunner_def Let_def)

lemma categorizeRunners_Active:
  "ActiveRunners (categorizeRunners rs st) = ActiveRunners st @ filter isAllocated rs"
  by (induction rs arbitrary: st) (simp_all add: categorizeRunner_Active)

lemma categorizeRunners_Deletable:
  "DeletableRunners (categorizeRunners rs st) =
     DeletableRunners st @ filter (\<lambda>r. \<not> isAllocated r \<and> GetUnschedulable r) rs"
  by (induction rs arbitrary: st) (simp_all add: categorizeRunner_Deletable)

lemma categorizeRunners_Idle:
  "IdleRunners (categorizeRunners rs st) =
     IdleRunners st @ filter (\<lambda>r. \<not> isAllocated r \<and> \<not> GetUnschedulable r) rs"
  by (induction rs arbitrary: st) (simp_all add: categorizeRunner_Idle)

lemma categorizeRunners_Runners:
  "Runners (categorizeRunners rs st) = Runners st"
  by (induction rs arbitrary: st) (simp_all add: categorizeRunner_frame)

lemma categorizePlaceholders_frame:
  "Runners (categorizePlaceholders ps st) = Runners st"
  "ActiveRunners (categorizePlaceholders ps st) = ActiveRunners st"
  "DeletableRunners (categorizePlaceholders ps st) = DeletableRunners st"
  "IdleRunners (categorizePlaceholders ps st) = IdleRunners st"
  by (induction ps arbitrary: st) simp_all

lemma identifyNascentNodes_frame:
  "Runners (identifyNascentNodes ns st) = Runners st"
  "ActiveRunners (identifyNascentNodes ns st) = ActiveRunners st"
  "DeletableRunners (identifyNascentNodes ns st) = DeletableRunners st"
  "IdleRunners (identifyNascentNodes ns st) = IdleRunners st"
  "Nodes (identifyNascentNodes ns st) = Nodes st"
  "NodeByIP (identifyNascentNodes ns st) = NodeByIP st"
  "PendingPlaceholders (identifyNascentNodes ns st) = PendingPlaceholders st"
  "ScheduledPlaceholders (identifyNascentNodes ns st) = ScheduledPlaceholders st"
  by (induction ns arbitrary: st) simp_all

lemma gatherClusterState_runners:
  assumes "gatherClusterState (Inr runners) listPods listNodes = Inr state"
  shows "Runners state = runners"
    and "ActiveRunners state = filter isAllocated runners"
    and "DeletableRunners state = filter (\<lambda>r. \<not> isAllocated r \<and> GetUnschedulable r) runners"
    and "IdleRunners state = filter (\<lambda>r. \<not> isAllocated r \<and> \<not> GetUnschedulable r) runners"
  using assms
  by (auto simp: gatherClusterState_def Let_def emptyClusterState_def
        categorizeRunners_Active categorizeRunners_Deletable categorizeRunners_Idle
        categorizeRunners_Runners categorizePlaceholders_frame identifyNascentNodes_frame
      split: sum.splits)

lemma length_three_filters:
  "length (filter P xs) + length (filter (\<lambda>x. \<not> P x \<and> Q x) xs)
     + length (filter (\<lambda>x. \<not> P x \<and> \<not> Q x) xs) = length xs"
  by (induction xs) auto

section \<open>Partition of the runners\<close>

text \<open>
  C3. Whenever \<^verbatim>\<open>gatherClusterState\<close> succeeds on a fetched list of runners, every
  fetched runner is Active exactly when one of its five allocation readings is positive,
  Deletable exactly when it is not Active and unschedulable, Idle exactly when it is not
  Active and schedulable; the three lists are pairwise disjoint, their union is the
  fetched list, and their lengths add up to its length (each occurrence is placed once).
\<close>

theorem partition_invariant:
  assumes "gatherClusterState (Inr runners) listPods listNodes = Inr state"
  shows "(\<forall>r \<in> set runners.
            (r \<in> set (ActiveRunners state) \<longleftrightarrow>
               (GetCurrentAllocatedCpu r > 0 \<or> GetCurrentAllocatedMemoryGiB r > 0 \<or>
                GetCurrentAllocatedDiskGiB r > 0 \<or> GetCurrentStartedSandboxes r > 0 \<or>
                GetCurrentSnapshotCount r > 0)) \<and>
            (r \<in> set (DeletableRunners state) \<longleftrightarrow>
               r \<notin> set (ActiveRunners state) \<and> GetUnschedulable r) \<and>
            (r \<in> set (IdleRunners state) \<longleftrightarrow>
               r \<notin> set (ActiveRunners state) \<and> \<not> GetUnschedulable r))
       \<and> set (ActiveRunners state) \<inter> set (DeletableRunners state) = {}
       \<and> set (ActiveRunners state) \<inter> set (IdleRunners state) = {}
       \<and> set (DeletableRunners state) \<inter> set (IdleRunners state) = {}
       \<and> set (ActiveRunners state) \<union> set (DeletableRunners state) \<union> set (IdleRunners state)
           = set runners
       \<and> length (ActiveRunners state) + length (DeletableRunners state)
           + length (IdleRunners state) = length runners"
proof -
  note g = gatherClusterState_runners[OF assms]
  have len: "length (ActiveRunners state) + length (DeletableRunners state)
           + length (IdleRunners state) = length runners"
    unfolding g by (rule length_three_filters)
  have rest: "(\<forall>r \<in> set runners.
            (r \<in> set (ActiveRunners state) \<longleftrightarrow> isAllocated r) \<and>
            (r \<in> set (DeletableRunners state) \<longleftrightarrow>
               r \<notin> set (ActiveRunners state) \<and> GetUnschedulable r) \<and>
            (r \<in> set (IdleRunners state) \<longleftrightarrow>
               r \<notin> set (ActiveRunners state) \<and> \<not> GetUnschedulable r))
       \<and> set (ActiveRunners state) \<inter> set (DeletableRunners state) = {}
       \<and> set (ActiveRunners state) \<inter> set (IdleRunners state) = {}
       \<and> set (DeletableRunners state) \<inter> set (IdleRunners state) = {}
       \<and> set (ActiveRunners state) \<union> set (DeletableRunners state) \<union> set (IdleRunners state)
           = set runners"
    unfolding g by auto
  from rest len show ?thesis unfolding isAllocated_def by simp
qed

theorem partition_invariant_witness:
  "gatherClusterState (Inr exRunners) (Inr exPods) (Inr exNodes) = Inr exCluster
   \<and> (exActive \<in> set (ActiveRunners exCluster) \<longleftrightarrow>
               (GetCurrentAllocatedCpu exActive > 0 \<or> GetCurrentAllocatedMemoryGiB exActive > 0 \<or>
                GetCurrentAllocatedDiskGiB exActive > 0 \<or> GetCurrentStartedSandboxes exActive > 0 \<or>
                GetCurrentSnapshotCount exActive > 0))
   \<and> (exDeletable \<in> set (DeletableRunners exCluster) \<longleftrightarrow>
               exDeletable \<notin> set (ActiveRunners exCluster) \<and> GetUnschedulable exDeletable)
   \<and> (exIdle \<in> set (IdleRunners exCluster) \<longleftrightarrow>
               exIdle \<notin> set (ActiveRunners exCluster) \<and> \<not> GetUnschedulable exIdle)
   \<and> set (ActiveRunners exCluster) \<inter> set (DeletableRunners exCluster) = {}
   \<and> set (ActiveRunners exCluster) \<inter> set (IdleRunners exCluster) = {}
   \<and> set (DeletableRunners exCluster) \<inter> set (IdleRunners exCluster) = {}
   \<and> set (ActiveRunners exCluster) \<union> set (DeletableRunners exCluster)
        \<union> set (IdleRunners exCluster) = set exRunners
   \<and> length (ActiveRunners exCluster) + length (DeletableRunners exCluster)
        + length (IdleRunners exCluster) = length exRunners"
  using exCluster_gathered partition_invariant [OF exCluster_gathered]
  by (simp add: exRunners_def)

section \<open>Facts about the scale-down filter\<close>

lemma getNodeAllocatableResources_parts:
  "getNodeAllocatableResources node =
     (fst (getNodeAllocatableResources node), fst (snd (getNodeAllocatableResources node)), None)"
  by (simp add: getNodeAllocatableResources_def Let_def)


lemma scaleDownStep_resolved:
  assumes "GetDomain r \<noteq> ''''" and "NodeByIP state (GetDomain r) = Some node"
  shows "scaleDownStep cfg state metrics r batch =
           (if TotalAvailableCPU metrics - fst (getNodeAllocatableResources node)
                 < of_int (MinIdleCpu cfg)
               \<or> TotalAvailableMemoryGiB metrics - fst (snd (getNodeAllocatableResources node))
                 < of_int (MinIdleMemory cfg)
            then batch
            else (case findPlaceholderOnNode (ScheduledPlaceholders state) (node_Name node) of
                    Some pod \<Rightarrow> batch @ [pod] | None \<Rightarrow> batch))"
proof -
  obtain c m where cm: "getNodeAllocatableResources node = (c, m, None)"
    using getNodeAllocatableResources_parts by blast
  show ?thesis
    using assms by (simp add: scaleDownStep_def Let_def cm)
qed







section \<open>Scale-down safety\<close>



section \<open>getNodeAllocatableResources never fails\<close>

text \<open>
  C9. \<^verbatim>\<open>getNodeAllocatableResources\<close> returns a nil error for every node. So the skip on
  error is dead at both call sites: the capacity loop adds the allocatable of every
  schedulable node without a runner, and the scale-down loop takes every resolved node
  to the safety check. A node whose allocatable entries are missing or zero reads as
  0 cores and 0 GiB: it adds 0 to the capacity totals, and the hypothetical availability
  after removing it is the availability itself.
\<close>

theorem allocatable_never_errors:
  "snd (snd (getNodeAllocatableResources node)) = None
   \<and> nodeCapacityLoop nodesWithRunners (node # rest) (cpu, mem) =
       nodeCapacityLoop nodesWithRunners rest
         (if node_Unschedulable node \<or> readBool nodesWithRunners (node_Name node)
          then (cpu, mem)
          else (cpu + fst (getNodeAllocatableResources node),
                mem + fst (snd (getNodeAllocatableResources node))))
   \<and> (GetDomain r \<noteq> '''' \<and> NodeByIP state (GetDomain r) = Some node \<longrightarrow>
        scaleDownStep cfg state metrics r batch =
          (if TotalAvailableCPU metrics - fst (getNodeAllocatableResources node)
                < of_int (MinIdleCpu cfg)
              \<or> TotalAvailableMemoryGiB metrics - fst (snd (getNodeAllocatableResources node))
                < of_int (MinIdleMemory cfg)
           then batch
           else (case findPlaceholderOnNode (ScheduledPlaceholders state) (node_Name node) of
                   Some pod \<Rightarrow> batch @ [pod] | None \<Rightarrow> batch)))
   \<and> ((case node_Allocatable node ResourceCPU of None \<Rightarrow> True | Some q \<Rightarrow> MilliValue q = 0)
        \<and> (case node_Allocatable node ResourceMemory of None \<Rightarrow> True | Some q \<Rightarrow> Value q = 0)
      \<longrightarrow> getNodeAllocatableResources node = (0, 0, None)
          \<and> nodeCapacityLoop nodesWithRunners (node # rest) (cpu, mem) =
              nodeCapacityLoop nodesWithRunners rest (cpu, mem)
          \<and> (GetDomain r \<noteq> '''' \<and> NodeByIP state (GetDomain r) = Some node \<longrightarrow>
               scaleDownStep cfg state metrics r batch =
                 (if TotalAvailableCPU metrics < of_int (MinIdleCpu cfg)
                     \<or> TotalAvailableMemoryGiB metrics < of_int (MinIdleMemory cfg)
                  then batch
                  else (case findPlaceholderOnNode (ScheduledPlaceholders state)
                               (node_Name node) of
                          Some pod \<Rightarrow> batch @ [pod] | None \<Rightarrow> batch))))"
proof -
  have e: "snd (snd (getNodeAllocatableResources node)) = None"
    by (simp add: getNodeAllocatableResources_def Let_def)
  have l: "nodeCapacityLoop nodesWithRunners (node # rest) (cpu, mem) =
       nodeCapacityLoop nodesWithRunners rest
         (if node_Unschedulable node \<or> readBool nodesWithRunners (node_Name node)
          then (cpu, mem)
          else (cpu + fst (getNodeAllocatableResources node),
                mem + fst (snd (getNodeAllocatableResources node))))"
  proof -
    obtain c m where cm: "getNodeAllocatableResources node = (c, m, None)"
      using getNodeAllocatableResources_parts by blast
    show ?thesis by (simp add: cm)
  qed
  have z: "getNodeAllocatableResources node = (0, 0, None)"
    if "(case node_Allocatable node ResourceCPU of None \<Rightarrow> True | Some q \<Rightarrow> MilliValue q = 0)
        \<and> (case node_Allocatable node ResourceMemory of None \<Rightarrow> True | Some q \<Rightarrow> Value q = 0)"
    using that
    by (auto simp: getNodeAllocatableResources_def Let_def zeroQuantity_def
          split: option.splits)
  show ?thesis
    using e l z by (auto simp: scaleDownStep_resolved)
qed

theorem allocatable_never_errors_witness:
  "GetDomain exDeletable \<noteq> ''''
   \<and> NodeByIP exBareCluster (GetDomain exDeletable) = Some exBareNode
   \<and> node_Allocatable exBareNode ResourceCPU = None
   \<and> node_Allocatable exBareNode ResourceMemory = None
   \<and> getNodeAllocatableResources exBareNode = (0, 0, None)
   \<and> nodeCapacityLoop Map.empty [exBareNode] (16, 32) = (16, 32)
   \<and> scaleDownStep exConfig exBareCluster exMetrics exDeletable [] = [exPodC]"
proof -
  have r: "GetDomain exDeletable \<noteq> ''''
           \<and> NodeByIP exBareCluster (GetDomain exDeletable) = Some exBareNode"
    by (simp add: GetDomain_def exDeletable_def exBareCluster_def)
  have m: "(case node_Allocatable exBareNode ResourceCPU of
              None \<Rightarrow> True | Some q \<Rightarrow> MilliValue q = 0)
           \<and> (case node_Allocatable exBareNode ResourceMemory of
              None \<Rightarrow> True | Some q \<Rightarrow> Value q = 0)"
    by (simp add: exBareNode_def)
  note t = allocatable_never_errors [of exBareNode Map.empty "[]" 16 32 exDeletable
      exBareCluster exConfig exMetrics "[]", THEN conjunct2, THEN conjunct2, THEN conjunct2,
      rule_format, OF m]
  have p: "findPlaceholderOnNode (ScheduledPlaceholders exBareCluster) (node_Name exBareNode)
             = Some exPodC"
    by (simp add: exBareCluster_def exCluster_def exBareNode_def exPodC_def)
  have s: "scaleDownStep exConfig exBareCluster exMetrics exDeletable [] = [exPodC]"
    using t [THEN conjunct2, THEN conjunct2, rule_format, OF r]
    by (simp add: p exMetrics_def exConfig_def)
  have c: "nodeCapacityLoop Map.empty [exBareNode] (16, 32) = (16, 32)"
    using t [THEN conjunct2, THEN conjunct1] by simp
  show ?thesis
    using r t [THEN conjunct1] c s by (simp add: exBareNode_def)
qed

section \<open>Facts about scale-up\<close>

lemma handleScaleDown_creates_nothing:
  "CreatePlaceholderPod \<notin> set (handleScaleDown cfg state metrics needsScaleUp)"
  by (auto simp: handleScaleDown_def)

lemma handleScaleUp_creates:
  "fst (handleScaleUp cfg state metrics)
     = replicate (nat (nodesToCreate cfg state metrics)) CreatePlaceholderPod"
  by (simp add: handleScaleUp_def)

lemma deficit_shape_nonneg:
  fixes a b c :: int
  shows "0 \<le> (let n0 = 0;
                  n1 = (if P then max n0 a else n0);
                  n2 = (if Q then max n1 b else n1);
                  n3 = (if R then max n2 c else n2)
              in if U \<and> n3 = 0 then 1 else n3)"
  by (simp add: Let_def max_def)


lemma deficit_shape_zero:
  fixes a b c :: int
  assumes "\<not> P" "\<not> Q" "\<not> R" "\<not> U"
  shows "(let n0 = 0;
              n1 = (if P then max n0 a else n0);
              n2 = (if Q then max n1 b else n1);
              n3 = (if R then max n2 c else n2)
          in if U \<and> n3 = 0 then 1 else n3) = 0"
  using assms by (simp add: Let_def)

lemma nodesNeededFromDeficit_nonneg:
  "0 \<le> nodesNeededFromDeficit cfg state metrics"
  unfolding nodesNeededFromDeficit_def Let_def
  by (rule deficit_shape_nonneg[unfolded Let_def])



lemma not_shouldScaleUp_needs_nothing:
  assumes "\<not> shouldScaleUp metrics cfg (int (length (IdleRunners state)))
               (int (length (NascentNodes state)))"
  shows "nodesNeededFromDeficit cfg state metrics = 0"
  using assms unfolding shouldScaleUp_def nodesNeededFromDeficit_def Let_def
  by (intro deficit_shape_zero[unfolded Let_def]) auto

lemma podsCreated_handleScaleDown:
  "podsCreated (handleScaleDown cfg state metrics needsScaleUp) = 0"
  using handleScaleDown_creates_nothing[of cfg state metrics needsScaleUp]
  by (auto simp: podsCreated_def filter_empty_conv)

lemma podsCreated_controllerTick:
  "podsCreated (controllerTick cfg state)
     = nat (nodesToCreate cfg state (calculateResourceMetrics state))"
proof (cases "shouldScaleUp (calculateResourceMetrics state) cfg
                (int (length (IdleRunners state))) (int (length (NascentNodes state)))")
  case True
  then show ?thesis
    using podsCreated_handleScaleDown[of cfg state "calculateResourceMetrics state" True]
    by (simp add: controllerTick_def Let_def handleScaleUp_def podsCreated_def)
next
  case False
  from not_shouldScaleUp_needs_nothing[OF False]
  have "nodesToCreate cfg state (calculateResourceMetrics state) \<le> 0"
    by (simp add: nodesToCreate_def)
  with False show ?thesis
    using podsCreated_handleScaleDown[of cfg state "calculateResourceMetrics state" False]
    by (simp add: controllerTick_def Let_def)
qed

section \<open>Placeholder accounting\<close>

text \<open>
  C2. \<^verbatim>\<open>nodesToCreate\<close> is \<^verbatim>\<open>nodesNeededFromDeficit\<close> minus the number of pending
  placeholders; \<^verbatim>\<open>handleScaleUp\<close> issues exactly that many creations when the value is
  positive and none otherwise, and reports a scale-up exactly when it is positive. When
  \<^verbatim>\<open>nodesNeededFromDeficit\<close> does not exceed the pending placeholders, \<^verbatim>\<open>handleScaleUp\<close>
  creates no pod, and neither does the whole tick.
\<close>

theorem placeholder_accounting:
  "nodesToCreate cfg state metrics
     = nodesNeededFromDeficit cfg state metrics - int (length (PendingPlaceholders state))
   \<and> fst (handleScaleUp cfg state metrics)
     = replicate (nat (nodesToCreate cfg state metrics)) CreatePlaceholderPod
   \<and> (fst (handleScaleUp cfg state metrics) \<noteq> [] \<longleftrightarrow> nodesToCreate cfg state metrics > 0)
   \<and> (snd (handleScaleUp cfg state metrics) \<longleftrightarrow> nodesToCreate cfg state metrics > 0)
   \<and> (nodesNeededFromDeficit cfg state metrics \<le> int (length (PendingPlaceholders state))
        \<longrightarrow> handleScaleUp cfg state metrics = ([], False))
   \<and> (nodesNeededFromDeficit cfg state (calculateResourceMetrics state)
          \<le> int (length (PendingPlaceholders state))
        \<longrightarrow> podsCreated (controllerTick cfg state) = 0)"
proof -
  have "nodesNeededFromDeficit cfg state (calculateResourceMetrics state)
          \<le> int (length (PendingPlaceholders state))
        \<longrightarrow> podsCreated (controllerTick cfg state) = 0"
    by (simp add: podsCreated_controllerTick nodesToCreate_def)
  then show ?thesis
    by (simp add: handleScaleUp_def nodesToCreate_def)
qed



lemma exConfigHigh_needs_one:
  "nodesNeededFromDeficit exConfigHigh exCluster exMetrics = 1"
  "nodesNeededFromDeficit exConfigHigh exTwoPending exMetrics = 1"
  by (simp_all add: nodesNeededFromDeficit_def exConfigHigh_def exConfig_def exMetrics_def
        exCluster_def exTwoPending_def Let_def)

lemma ex_pending:
  "PendingPlaceholders exCluster = [exPodPending]"
  "PendingPlaceholders exTwoPending = [exPodPending, exPodPending2]"
  by (simp_all add: exCluster_def exTwoPending_def)

theorem placeholder_accounting_witness:
  "nodesNeededFromDeficit exConfigHigh exCluster exMetrics
     \<le> int (length (PendingPlaceholders exCluster))
   \<and> nodesNeededFromDeficit exConfigHigh exCluster (calculateResourceMetrics exCluster)
     \<le> int (length (PendingPlaceholders exCluster))
   \<and> nodesToCreate exConfigHigh exCluster exMetrics = 0
   \<and> handleScaleUp exConfigHigh exCluster exMetrics = ([], False)
   \<and> podsCreated (controllerTick exConfigHigh exCluster) = 0"
proof -
  have h: "nodesNeededFromDeficit exConfigHigh exCluster exMetrics
             \<le> int (length (PendingPlaceholders exCluster))"
    by (simp add: exConfigHigh_needs_one ex_pending)
  note t = placeholder_accounting [of exConfigHigh exCluster exMetrics]
  have n: "nodesToCreate exConfigHigh exCluster exMetrics = 0"
    using t [THEN conjunct1] by (simp add: exConfigHigh_needs_one ex_pending)
  have u: "handleScaleUp exConfigHigh exCluster exMetrics = ([], False)"
    using t [THEN conjunct2, THEN conjunct2, THEN conjunct2, THEN conjunct2, THEN conjunct1] h
    by blast
  have p: "podsCreated (controllerTick exConfigHigh exCluster) = 0"
    using t [THEN conjunct2, THEN conjunct2, THEN conjunct2, THEN conjunct2, THEN conjunct2]
      h exMetrics_calculated
    by simp
  show ?thesis
    using h n u p by (simp add: exMetrics_calculated)
qed

section \<open>Scale-up monotonicity\<close>




section \<open>Facts about calculateResourceMetrics\<close>








section \<open>No double counting of capacity\<close>





section \<open>Facts about the steps of Authenticate\<close>

lemma tryBearer_Return:
  assumes "tryBearer p tok ctx errs = Return c r"
  shows "c = logCall ctx (CallBearerTokenValid tok
               (TrimSpace (TrimPrefix (headerGet (ctx_Request ctx) ''Authorization'') ''Bearer '')))
         \<and> r = succeed tok
         \<and> headerGet (ctx_Request ctx) ''Authorization'' \<noteq> ''''
         \<and> HasPrefix (headerGet (ctx_Request ctx) ''Authorization'') ''Bearer ''
         \<and> getSandboxBearerTokenValid p tok
               (TrimSpace (TrimPrefix (headerGet (ctx_Request ctx) ''Authorization'') ''Bearer ''))
             = Inr (Some True)"
  using assms
  by (auto simp: tryBearer_def Let_def split: if_splits sum.splits)

lemma tryBearer_Continue:
  assumes "tryBearer p tok ctx errs = Continue c es"
  shows "ctx_Request c = ctx_Request ctx \<and> ctx_SetCookies c = ctx_SetCookies ctx
         \<and> ctx_Redirect c = ctx_Redirect ctx"
  using assms
  by (auto simp: tryBearer_def Let_def logCall_def split: if_splits sum.splits)

lemma tryBearer_valid:
  assumes "headerGet (ctx_Request ctx) ''Authorization'' \<noteq> ''''"
    and "HasPrefix (headerGet (ctx_Request ctx) ''Authorization'') ''Bearer ''"
    and "getSandboxBearerTokenValid p tok
           (TrimSpace (TrimPrefix (headerGet (ctx_Request ctx) ''Authorization'') ''Bearer ''))
         = Inr (Some True)"
  shows "tryBearer p tok ctx errs =
           Return (logCall ctx (CallBearerTokenValid tok
                     (TrimSpace (TrimPrefix (headerGet (ctx_Request ctx) ''Authorization'')
                        ''Bearer ''))))
                  (succeed tok)"
  using assms by (simp add: tryBearer_def Let_def)

lemma tryAuthKeyHeader_Return:
  assumes "tryAuthKeyHeader p tok ctx errs = Return c r"
  shows "ctx_Request c = headerDel (ctx_Request ctx) (SANDBOX_AUTH_KEY_HEADER p)
         \<and> ctx_SetCookies c = ctx_SetCookies ctx \<and> ctx_Redirect c = ctx_Redirect ctx
         \<and> r = succeed tok"
  using assms
  by (auto simp: tryAuthKeyHeader_def Let_def logCall_def split: if_splits sum.splits)

lemma tryAuthKeyHeader_Continue:
  assumes "tryAuthKeyHeader p tok ctx errs = Continue c es"
  shows "ctx_Request c =
           (if headerGet (ctx_Request ctx) (SANDBOX_AUTH_KEY_HEADER p) \<noteq> ''''
            then headerDel (ctx_Request ctx) (SANDBOX_AUTH_KEY_HEADER p) else ctx_Request ctx)
         \<and> ctx_SetCookies c = ctx_SetCookies ctx \<and> ctx_Redirect c = ctx_Redirect ctx"
  using assms
  by (auto simp: tryAuthKeyHeader_def Let_def logCall_def split: if_splits sum.splits)

lemma tryAuthKeyQuery_Return:
  assumes "tryAuthKeyQuery p tok ctx errs = Return c r"
  shows "req_Header (ctx_Request c) = req_Header (ctx_Request ctx)
         \<and> ctx_SetCookies c = ctx_SetCookies ctx \<and> ctx_Redirect c = ctx_Redirect ctx
         \<and> r = succeed tok"
  using assms
  by (auto simp: tryAuthKeyQuery_def Let_def logCall_def queryDel_def
        split: if_splits sum.splits)

lemma tryAuthKeyQuery_Continue:
  assumes "tryAuthKeyQuery p tok ctx errs = Continue c es"
  shows "ctx_Request c = ctx_Request ctx
         \<and> ctx_SetCookies c = ctx_SetCookies ctx \<and> ctx_Redirect c = ctx_Redirect ctx"
  using assms
  by (auto simp: tryAuthKeyQuery_def Let_def logCall_def split: if_splits sum.splits)

lemma tryCookie_Return:
  assumes "tryCookie p tok ctx errs = Return c r"
  shows "ctx_Request c = ctx_Request ctx
         \<and> ctx_SetCookies c = ctx_SetCookies ctx \<and> ctx_Redirect c = ctx_Redirect ctx
         \<and> r = succeed tok"
  using assms
  by (auto simp: tryCookie_def Let_def logCall_def split: if_splits sum.splits option.splits)

lemma tryCookie_Continue:
  assumes "tryCookie p tok ctx errs = Continue c es"
  shows "ctx_Request c = ctx_Request ctx
         \<and> ctx_SetCookies c = ctx_SetCookies ctx \<and> ctx_Redirect c = ctx_Redirect ctx"
  using assms
  by (auto simp: tryCookie_def Let_def logCall_def split: if_splits sum.splits option.splits)

lemma getSandboxIdFromSignedPreviewUrlToken_request:
  "ctx_Request (fst (getSandboxIdFromSignedPreviewUrlToken p ctx tok port cd)) = ctx_Request ctx"
  by (simp add: getSandboxIdFromSignedPreviewUrlToken_def Let_def logCall_def
        split: sum.splits)

lemma signedTokenOrRedirect_request:
  "ctx_Request (fst (signedTokenOrRedirect p tok port ctx errs)) = ctx_Request ctx"
proof -
  obtain c r where g: "getSandboxIdFromSignedPreviewUrlToken p ctx tok port
                         (getCookieDomain p (req_Host (ctx_Request ctx))) = (c, r)"
    by (cases "getSandboxIdFromSignedPreviewUrlToken p ctx tok port
                 (getCookieDomain p (req_Host (ctx_Request ctx)))")
  have "ctx_Request c = ctx_Request ctx"
    using getSandboxIdFromSignedPreviewUrlToken_request
            [of p ctx tok port "getCookieDomain p (req_Host (ctx_Request ctx))"]
    by (simp add: g)
  then show ?thesis
    by (simp add: signedTokenOrRedirect_def Let_def g logCall_def split: sum.splits)
qed

text \<open>The error message of a redirect always starts with the aggregated heading.\<close>

lemma signedTokenOrRedirect_message:
  assumes "didRedirect (snd (signedTokenOrRedirect p tok port ctx errs))"
  shows "\<exists>reasons. reasons \<noteq> [] \<and>
           err (snd (signedTokenOrRedirect p tok port ctx errs))
             = Some (''authentication failed:'' @ [CHR 0x0A]
                       @ Join reasons ([CHR 0x0A] @ '';'' @ [CHR 0x0A]))"
proof -
  obtain c r where g: "getSandboxIdFromSignedPreviewUrlToken p ctx tok port
                         (getCookieDomain p (req_Host (ctx_Request ctx))) = (c, r)"
    by (cases "getSandboxIdFromSignedPreviewUrlToken p ctx tok port
                 (getCookieDomain p (req_Host (ctx_Request ctx)))")
  show ?thesis
    using assms
    by (auto simp: signedTokenOrRedirect_def Let_def g succeed_def split: sum.splits)
qed

text \<open>The first four attempts never consult the preview-token API.\<close>

lemma steps_ignore_previewApi:
  "tryBearer (p\<lparr>previewApiGetSandboxId := f\<rparr>) = tryBearer p"
  "tryAuthKeyHeader (p\<lparr>previewApiGetSandboxId := f\<rparr>) = tryAuthKeyHeader p"
  "tryAuthKeyQuery (p\<lparr>previewApiGetSandboxId := f\<rparr>) = tryAuthKeyQuery p"
  "tryCookie (p\<lparr>previewApiGetSandboxId := f\<rparr>) = tryCookie p"
  by (simp_all add: fun_eq_iff tryBearer_def tryAuthKeyHeader_def tryAuthKeyQuery_def
        tryCookie_def Let_def split: sum.splits option.splits)

text \<open>
  \<^verbatim>\<open>Authenticate\<close> either returns early with the path token, or ends in the signed-token
  exchange; which of the two, and with which context, does not depend on the preview-token
  API, and no cookie has been written by then.
\<close>

lemma Authenticate_cases:
  obtains (early) c where
      "\<And>f. Authenticate (p\<lparr>previewApiGetSandboxId := f\<rparr>) ctx tok port = (c, succeed tok)"
      "ctx_SetCookies c = ctx_SetCookies ctx"
  | (late) c es where
      "\<And>f. Authenticate (p\<lparr>previewApiGetSandboxId := f\<rparr>) ctx tok port
            = signedTokenOrRedirect (p\<lparr>previewApiGetSandboxId := f\<rparr>) tok port c es"
      "ctx_SetCookies c = ctx_SetCookies ctx"
proof (cases "tryBearer p tok ctx []")
  case (Return c r)
  with tryBearer_Return[OF Return] early[of c] show ?thesis
    by (simp add: Authenticate_def steps_ignore_previewApi logCall_def)
next
  case s1: (Continue c1 e1)
  note f1 = tryBearer_Continue[OF s1]
  show ?thesis
  proof (cases "tryAuthKeyHeader p tok c1 e1")
    case (Return c r)
    with tryAuthKeyHeader_Return[OF Return] s1 f1 early[of c] show ?thesis
      by (simp add: Authenticate_def steps_ignore_previewApi)
  next
    case s2: (Continue c2 e2)
    note f2 = tryAuthKeyHeader_Continue[OF s2]
    show ?thesis
    proof (cases "tryAuthKeyQuery p tok c2 e2")
      case (Return c r)
      with tryAuthKeyQuery_Return[OF Return] s1 s2 f1 f2 early[of c] show ?thesis
        by (simp add: Authenticate_def steps_ignore_previewApi)
    next
      case s3: (Continue c3 e3)
      note f3 = tryAuthKeyQuery_Continue[OF s3]
      show ?thesis
      proof (cases "tryCookie p tok c3 e3")
        case (Return c r)
        with tryCookie_Return[OF Return] s1 s2 s3 f1 f2 f3 early[of c] show ?thesis
          by (simp add: Authenticate_def steps_ignore_previewApi)
      next
        case s4: (Continue c4 e4)
        note f4 = tryCookie_Continue[OF s4]
        from s1 s2 s3 s4 f1 f2 f3 f4 late[of c4 e4] show ?thesis
          by (simp add: Authenticate_def steps_ignore_previewApi)
      qed
    qed
  qed
qed

lemma Authenticate_redirect_message:
  assumes "didRedirect (snd (Authenticate p ctx tok port))"
  shows "err (snd (Authenticate p ctx tok port)) \<noteq> Some missingAuthentication"
proof (rule Authenticate_cases[where p = p and ctx = ctx and tok = tok and port = port])
  fix c
  assume "\<And>f. Authenticate (p\<lparr>previewApiGetSandboxId := f\<rparr>) ctx tok port = (c, succeed tok)"
  from this[of "previewApiGetSandboxId p"] assms show ?thesis
    by (simp add: succeed_def)
next
  fix c es
  assume "\<And>f. Authenticate (p\<lparr>previewApiGetSandboxId := f\<rparr>) ctx tok port
            = signedTokenOrRedirect (p\<lparr>previewApiGetSandboxId := f\<rparr>) tok port c es"
  from this[of "previewApiGetSandboxId p"] assms signedTokenOrRedirect_message[of p tok port c es]
  show ?thesis
    by (auto simp: missingAuthentication_def)
qed

section \<open>The example requests, run\<close>

lemmas proxy_steps =
  Authenticate_def tryBearer_def tryAuthKeyHeader_def tryAuthKeyQuery_def tryCookie_def
  signedTokenOrRedirect_def getSandboxIdFromSignedPreviewUrlToken_def
  headerGet_def headerDel_def ctxQuery_def queryDel_def HasPrefix_def TrimPrefix_def
  TrimSpace_def isSpace_def logCall_def succeed_def Let_def

lemma exBearerAndKey_run:
  "Authenticate exProxy (exContext exReqBearerAndKey) ''sb1'' 3000 =
     ((exContext exReqBearerAndKey)\<lparr>ctx_Calls := [CallBearerTokenValid ''sb1'' ''jwt'']\<rparr>,
      \<lparr> sandboxId = ''sb1'', didRedirect = False, err = None \<rparr>)"
  by (simp add: proxy_steps exProxy_def exContext_def exReqBearerAndKey_def)

lemma exBadBearerAndKey_run:
  "Authenticate exProxy (exContext exReqBadBearerAndKey) ''sb1'' 3000 =
     ((exContext exReqBadBearerAndKey)
        \<lparr>ctx_Request := exReqBadBearerAndKey
           \<lparr>req_Header := [''Authorization'' \<mapsto> [''Bearer old'']]\<rparr>,
         ctx_Calls := [CallBearerTokenValid ''sb1'' ''old'', CallAuthKeyValid ''sb1'' ''key'']\<rparr>,
      \<lparr> sandboxId = ''sb1'', didRedirect = False, err = None \<rparr>)"
  by (simp add: proxy_steps exProxy_def exContext_def exReqBadBearerAndKey_def fun_upd_twist)

lemma exNoCredentials_run:
  "Authenticate exProxy (exContext exReqNoCredentials) ''sb1'' 3000 =
     ((exContext exReqNoCredentials)
        \<lparr>ctx_Redirect := Some (307, ''https://auth/sb1''),
         ctx_Calls := [CallSignedPreviewUrlToken ''sb1'' 3000, CallAuthUrl ''sb1'']\<rparr>,
      \<lparr> sandboxId = ''sb1'', didRedirect = True,
        err = Some (''authentication failed:'' @ newline
                      @ ''failed to get sandbox ID: 404. Is the token expired?'') \<rparr>)"
  by (simp add: proxy_steps exProxy_def exContext_def exReqNoCredentials_def newline_def)

lemma exOtherCookie_run:
  "Authenticate exProxy (exContext exReqOtherCookie) ''sb1'' 3000 =
     ((exContext exReqOtherCookie)
        \<lparr>ctx_Redirect := Some (307, ''https://auth/sb1''),
         ctx_Calls := [CallCookieDecode ''auth-sb1'' ''auth-sb1|sb2'',
                       CallSignedPreviewUrlToken ''sb1'' 3000, CallAuthUrl ''sb1'']\<rparr>,
      \<lparr> sandboxId = ''sb1'', didRedirect = True,
        err = Some (''authentication failed:'' @ newline
                      @ ''failed to get sandbox ID: 404. Is the token expired?'') \<rparr>)"
  by (simp add: proxy_steps exProxy_def exDecode_def exContext_def exReqOtherCookie_def
        newline_def)

lemma exBrokenCookie_run:
  "Authenticate exProxy (exContext exReqBrokenCookie) ''sb1'' 3000 =
     ((exContext exReqBrokenCookie)
        \<lparr>ctx_Redirect := Some (307, ''https://auth/sb1''),
         ctx_Calls := [CallCookieDecode ''auth-sb1'' ''garbage'',
                       CallSignedPreviewUrlToken ''sb1'' 3000, CallAuthUrl ''sb1'']\<rparr>,
      \<lparr> sandboxId = ''sb1'', didRedirect = True,
        err = Some (''authentication failed:'' @ newline
                      @ ''Cookie decoding error: bad cookie'' @ newline @ '';'' @ newline
                      @ ''failed to get sandbox ID: 404. Is the token expired?'') \<rparr>)"
  by (simp add: proxy_steps exProxy_def exDecode_def exContext_def exReqBrokenCookie_def
        newline_def)

section \<open>Credential precedence and the auth-key header\<close>

text \<open>
  C5, as stated, fails. A request with a valid bearer token and an auth-key header returns
  after the bearer attempt (only the bearer validator is called, no cookie is issued), and
  the forwarded request still carries the auth-key header: the header is deleted inside
  the auth-key attempt, which this request never reaches.
\<close>

theorem bearer_precedence_counterexample:
  "snd (Authenticate exProxy (exContext exReqBearerAndKey) ''sb1'' 3000)
     = \<lparr> sandboxId = ''sb1'', didRedirect = False, err = None \<rparr>
   \<and> ctx_Calls (fst (Authenticate exProxy (exContext exReqBearerAndKey) ''sb1'' 3000))
     = [CallBearerTokenValid ''sb1'' ''jwt'']
   \<and> ctx_SetCookies (fst (Authenticate exProxy (exContext exReqBearerAndKey) ''sb1'' 3000)) = []
   \<and> headerGet (ctx_Request (fst (Authenticate exProxy (exContext exReqBearerAndKey) ''sb1'' 3000)))
        (SANDBOX_AUTH_KEY_HEADER exProxy) = ''key''
   \<and> req_Header (ctx_Request (fst (Authenticate exProxy (exContext exReqBearerAndKey) ''sb1'' 3000)))
        (SANDBOX_AUTH_KEY_HEADER exProxy) \<noteq> None"
  unfolding exBearerAndKey_run
  by (simp add: exContext_def exReqBearerAndKey_def exProxy_def headerGet_def)

text \<open>
  C5, amended. When the request carries a Bearer authorization that the validator accepts,
  \<^verbatim>\<open>Authenticate\<close> returns the path token with no redirect and no error after the bearer
  attempt: the only call is the bearer validation, no cookie is written, and the request
  is forwarded as it came, auth-key header included. When the bearer attempt does not
  succeed and the request carries an auth-key header, the header is gone from the request
  when \<^verbatim>\<open>Authenticate\<close> returns, whatever the outcome of this or any later attempt.
\<close>

theorem bearer_precedence:
  "(headerGet (ctx_Request ctx) ''Authorization'' \<noteq> ''''
      \<and> HasPrefix (headerGet (ctx_Request ctx) ''Authorization'') ''Bearer ''
      \<and> getSandboxBearerTokenValid p tok
            (TrimSpace (TrimPrefix (headerGet (ctx_Request ctx) ''Authorization'') ''Bearer ''))
          = Inr (Some True)
    \<longrightarrow> Authenticate p ctx tok port =
          (ctx\<lparr>ctx_Calls := ctx_Calls ctx @
                  [CallBearerTokenValid tok
                     (TrimSpace (TrimPrefix (headerGet (ctx_Request ctx) ''Authorization'')
                        ''Bearer ''))]\<rparr>,
           \<lparr> sandboxId = tok, didRedirect = False, err = None \<rparr>))
   \<and> (\<not> (headerGet (ctx_Request ctx) ''Authorization'' \<noteq> ''''
          \<and> HasPrefix (headerGet (ctx_Request ctx) ''Authorization'') ''Bearer ''
          \<and> getSandboxBearerTokenValid p tok
                (TrimSpace (TrimPrefix (headerGet (ctx_Request ctx) ''Authorization'') ''Bearer ''))
              = Inr (Some True))
      \<and> headerGet (ctx_Request ctx) (SANDBOX_AUTH_KEY_HEADER p) \<noteq> ''''
    \<longrightarrow> req_Header (ctx_Request (fst (Authenticate p ctx tok port))) (SANDBOX_AUTH_KEY_HEADER p)
          = None)"
proof (intro conjI impI)
  assume "headerGet (ctx_Request ctx) ''Authorization'' \<noteq> ''''
      \<and> HasPrefix (headerGet (ctx_Request ctx) ''Authorization'') ''Bearer ''
      \<and> getSandboxBearerTokenValid p tok
            (TrimSpace (TrimPrefix (headerGet (ctx_Request ctx) ''Authorization'') ''Bearer ''))
          = Inr (Some True)"
  then have "tryBearer p tok ctx [] =
           Return (logCall ctx (CallBearerTokenValid tok
                     (TrimSpace (TrimPrefix (headerGet (ctx_Request ctx) ''Authorization'')
                        ''Bearer ''))))
                  (succeed tok)"
    by (simp add: tryBearer_valid)
  then show "Authenticate p ctx tok port =
          (ctx\<lparr>ctx_Calls := ctx_Calls ctx @
                  [CallBearerTokenValid tok
                     (TrimSpace (TrimPrefix (headerGet (ctx_Request ctx) ''Authorization'')
                        ''Bearer ''))]\<rparr>,
           \<lparr> sandboxId = tok, didRedirect = False, err = None \<rparr>)"
    by (simp add: Authenticate_def logCall_def succeed_def)
next
  let ?key = "SANDBOX_AUTH_KEY_HEADER p"
  assume a: "\<not> (headerGet (ctx_Request ctx) ''Authorization'' \<noteq> ''''
          \<and> HasPrefix (headerGet (ctx_Request ctx) ''Authorization'') ''Bearer ''
          \<and> getSandboxBearerTokenValid p tok
                (TrimSpace (TrimPrefix (headerGet (ctx_Request ctx) ''Authorization'') ''Bearer ''))
              = Inr (Some True))
      \<and> headerGet (ctx_Request ctx) ?key \<noteq> ''''"
  then obtain c1 e1 where s1: "tryBearer p tok ctx [] = Continue c1 e1"
    using tryBearer_Return[of p tok ctx "[]"] by (cases "tryBearer p tok ctx []") auto
  have r1: "ctx_Request c1 = ctx_Request ctx"
    using tryBearer_Continue[OF s1] by simp
  have present: "headerGet (ctx_Request c1) ?key \<noteq> ''''"
    using a r1 by simp
  have gone: "req_Header (headerDel (ctx_Request c1) ?key) ?key = None"
    by (simp add: headerDel_def)
  show "req_Header (ctx_Request (fst (Authenticate p ctx tok port))) ?key = None"
  proof (cases "tryAuthKeyHeader p tok c1 e1")
    case (Return c r)
    with tryAuthKeyHeader_Return[OF Return] s1 gone show ?thesis
      by (simp add: Authenticate_def)
  next
    case s2: (Continue c2 e2)
    have r2: "req_Header (ctx_Request c2) ?key = None"
      using tryAuthKeyHeader_Continue[OF s2] present gone by simp
    show ?thesis
    proof (cases "tryAuthKeyQuery p tok c2 e2")
      case (Return c r)
      with tryAuthKeyQuery_Return[OF Return] s1 s2 r2 show ?thesis
        by (simp add: Authenticate_def)
    next
      case s3: (Continue c3 e3)
      have r3: "req_Header (ctx_Request c3) ?key = None"
        using tryAuthKeyQuery_Continue[OF s3] r2 by simp
      show ?thesis
      proof (cases "tryCookie p tok c3 e3")
        case (Return c r)
        with tryCookie_Return[OF Return] s1 s2 s3 r3 show ?thesis
          by (simp add: Authenticate_def)
      next
        case s4: (Continue c4 e4)
        have r4: "req_Header (ctx_Request c4) ?key = None"
          using tryCookie_Continue[OF s4] r3 by simp
        from s1 s2 s3 s4 r4 show ?thesis
          by (simp add: Authenticate_def signedTokenOrRedirect_request)
      qed
    qed
  qed
qed

lemma exBearerAndKey_valid:
  "headerGet (ctx_Request (exContext exReqBearerAndKey)) ''Authorization'' \<noteq> ''''
   \<and> HasPrefix (headerGet (ctx_Request (exContext exReqBearerAndKey)) ''Authorization'') ''Bearer ''
   \<and> getSandboxBearerTokenValid exProxy ''sb1''
        (TrimSpace (TrimPrefix
           (headerGet (ctx_Request (exContext exReqBearerAndKey)) ''Authorization'') ''Bearer ''))
      = Inr (Some True)"
  by (simp add: exContext_def exReqBearerAndKey_def exProxy_def headerGet_def HasPrefix_def
        TrimPrefix_def TrimSpace_def isSpace_def)

lemma exBadBearerAndKey_invalid:
  "\<not> (headerGet (ctx_Request (exContext exReqBadBearerAndKey)) ''Authorization'' \<noteq> ''''
      \<and> HasPrefix (headerGet (ctx_Request (exContext exReqBadBearerAndKey)) ''Authorization'')
           ''Bearer ''
      \<and> getSandboxBearerTokenValid exProxy ''sb1''
           (TrimSpace (TrimPrefix
              (headerGet (ctx_Request (exContext exReqBadBearerAndKey)) ''Authorization'')
              ''Bearer ''))
         = Inr (Some True))
   \<and> headerGet (ctx_Request (exContext exReqBadBearerAndKey)) (SANDBOX_AUTH_KEY_HEADER exProxy)
       \<noteq> ''''"
  by (simp add: exContext_def exReqBadBearerAndKey_def exProxy_def headerGet_def HasPrefix_def
        TrimPrefix_def TrimSpace_def isSpace_def)

theorem bearer_precedence_witness:
  "headerGet (ctx_Request (exContext exReqBearerAndKey)) ''Authorization'' \<noteq> ''''
   \<and> HasPrefix (headerGet (ctx_Request (exContext exReqBearerAndKey)) ''Authorization'') ''Bearer ''
   \<and> getSandboxBearerTokenValid exProxy ''sb1''
        (TrimSpace (TrimPrefix
           (headerGet (ctx_Request (exContext exReqBearerAndKey)) ''Authorization'') ''Bearer ''))
      = Inr (Some True)
   \<and> Authenticate exProxy (exContext exReqBearerAndKey) ''sb1'' 3000 =
       ((exContext exReqBearerAndKey)
          \<lparr>ctx_Calls := ctx_Calls (exContext exReqBearerAndKey) @
             [CallBearerTokenValid ''sb1''
                (TrimSpace (TrimPrefix
                   (headerGet (ctx_Request (exContext exReqBearerAndKey)) ''Authorization'')
                   ''Bearer ''))]\<rparr>,
        \<lparr> sandboxId = ''sb1'', didRedirect = False, err = None \<rparr>)
   \<and> headerGet (ctx_Request (exContext exReqBadBearerAndKey)) (SANDBOX_AUTH_KEY_HEADER exProxy)
       \<noteq> ''''
   \<and> req_Header (ctx_Request (fst (Authenticate exProxy (exContext exReqBadBearerAndKey)
                                      ''sb1'' 3000)))
        (SANDBOX_AUTH_KEY_HEADER exProxy) = None"
  using bearer_precedence [of "exContext exReqBearerAndKey" exProxy "''sb1''" 3000]
    bearer_precedence [of "exContext exReqBadBearerAndKey" exProxy "''sb1''" 3000]
    exBearerAndKey_valid exBadBearerAndKey_invalid
  by blast

section \<open>The message of a redirect without credentials\<close>

text \<open>
  C6 does not hold of the code. A request that presents no credentials at all still goes
  through the signed-token exchange, whose failure is appended to the reasons before the
  redirect; the reason list is then never empty, and the error returned with the 307
  redirect is the aggregated one, not the canonical "missing authentication" message.
\<close>

theorem no_credentials_message:
  "headerGet exReqNoCredentials ''Authorization'' = ''''
   \<and> headerGet exReqNoCredentials (SANDBOX_AUTH_KEY_HEADER exProxy) = ''''
   \<and> ctxQuery exReqNoCredentials (SANDBOX_AUTH_KEY_QUERY_PARAM exProxy) = ''''
   \<and> req_Cookies exReqNoCredentials (SANDBOX_AUTH_COOKIE_NAME exProxy @ ''sb1'') = None
   \<and> didRedirect (snd (Authenticate exProxy (exContext exReqNoCredentials) ''sb1'' 3000))
   \<and> ctx_Redirect (fst (Authenticate exProxy (exContext exReqNoCredentials) ''sb1'' 3000))
       = Some (307, ''https://auth/sb1'')
   \<and> err (snd (Authenticate exProxy (exContext exReqNoCredentials) ''sb1'' 3000))
       = Some (''authentication failed:'' @ newline
                 @ ''failed to get sandbox ID: 404. Is the token expired?'')
   \<and> err (snd (Authenticate exProxy (exContext exReqNoCredentials) ''sb1'' 3000))
       \<noteq> Some missingAuthentication"
  unfolding exNoCredentials_run
  by (simp add: exReqNoCredentials_def exProxy_def exContext_def
        headerGet_def ctxQuery_def newline_def missingAuthentication_def)

section \<open>Reasons collected from the attempts\<close>

text \<open>
  C8 does not hold of the code. A cookie that decodes to a value other than the path token
  ends the cookie attempt as invalid, but the attempt hands on the reason list unchanged:
  the aggregated error of the redirect lists the token exchange only. A cookie that fails
  to decode does add its reason, as the invalid bearer token and auth keys do.
\<close>

theorem cookie_mismatch_reason:
  "secureCookieDecode exProxy ''auth-sb1'' ''auth-sb1|sb2'' = Inr ''sb2''
   \<and> tryCookie exProxy ''sb1'' (exContext exReqOtherCookie) [] =
       Continue ((exContext exReqOtherCookie)
                   \<lparr>ctx_Calls := [CallCookieDecode ''auth-sb1'' ''auth-sb1|sb2'']\<rparr>) []
   \<and> err (snd (Authenticate exProxy (exContext exReqOtherCookie) ''sb1'' 3000))
       = Some (''authentication failed:'' @ newline
                 @ ''failed to get sandbox ID: 404. Is the token expired?'')
   \<and> tryCookie exProxy ''sb1'' (exContext exReqBrokenCookie) [] =
       Continue ((exContext exReqBrokenCookie)
                   \<lparr>ctx_Calls := [CallCookieDecode ''auth-sb1'' ''garbage'']\<rparr>)
         [''Cookie decoding error: bad cookie'']
   \<and> err (snd (Authenticate exProxy (exContext exReqBrokenCookie) ''sb1'' 3000))
       = Some (''authentication failed:'' @ newline
                 @ ''Cookie decoding error: bad cookie'' @ newline @ '';'' @ newline
                 @ ''failed to get sandbox ID: 404. Is the token expired?'')"
  unfolding exOtherCookie_run exBrokenCookie_run
  by (simp add: tryCookie_def exProxy_def exDecode_def
        exContext_def exReqOtherCookie_def exReqBrokenCookie_def logCall_def Let_def)

section \<open>A cookie that cannot be encoded\<close>

lemma signedTokenOrRedirect_encode_fails:
  assumes "previewApiGetSandboxId p tok port = Inr sid"
    and "secureCookieEncode p (SANDBOX_AUTH_COOKIE_NAME p @ sid) sid = Inl e"
  shows "signedTokenOrRedirect p tok port ctx errs =
           (case getAuthUrl p (ctx_Request ctx) tok of
              Inl e2 \<Rightarrow>
                (ctx\<lparr>ctx_Calls := ctx_Calls ctx @
                        [CallSignedPreviewUrlToken tok port,
                         CallCookieEncode (SANDBOX_AUTH_COOKIE_NAME p @ sid) sid,
                         CallAuthUrl tok]\<rparr>,
                 \<lparr> sandboxId = tok, didRedirect = False,
                   err = Some (''failed to get auth URL: '' @ e2) \<rparr>)
            | Inr url \<Rightarrow>
                (ctx\<lparr>ctx_Redirect := Some (307, url),
                     ctx_Calls := ctx_Calls ctx @
                        [CallSignedPreviewUrlToken tok port,
                         CallCookieEncode (SANDBOX_AUTH_COOKIE_NAME p @ sid) sid,
                         CallAuthUrl tok]\<rparr>,
                 \<lparr> sandboxId = tok, didRedirect = True,
                   err = Some (''authentication failed:'' @ [CHR 0x0A]
                                 @ Join (errs @ [''failed to encode cookie: '' @ e])
                                     ([CHR 0x0A] @ '';'' @ [CHR 0x0A])) \<rparr>))"
  using assms
  by (simp add: signedTokenOrRedirect_def getSandboxIdFromSignedPreviewUrlToken_def
        Let_def logCall_def split: sum.splits)

lemma signedTokenOrRedirect_token_invalid:
  assumes "previewApiGetSandboxId p tok port = Inl e'"
  shows "signedTokenOrRedirect p tok port ctx errs =
           (case getAuthUrl p (ctx_Request ctx) tok of
              Inl e2 \<Rightarrow>
                (ctx\<lparr>ctx_Calls := ctx_Calls ctx @
                        [CallSignedPreviewUrlToken tok port, CallAuthUrl tok]\<rparr>,
                 \<lparr> sandboxId = tok, didRedirect = False,
                   err = Some (''failed to get auth URL: '' @ e2) \<rparr>)
            | Inr url \<Rightarrow>
                (ctx\<lparr>ctx_Redirect := Some (307, url),
                     ctx_Calls := ctx_Calls ctx @
                        [CallSignedPreviewUrlToken tok port, CallAuthUrl tok]\<rparr>,
                 \<lparr> sandboxId = tok, didRedirect = True,
                   err = Some (''authentication failed:'' @ [CHR 0x0A]
                                 @ Join (errs @ [''failed to get sandbox ID: '' @ e'
                                                   @ ''. Is the token expired?''])
                                     ([CHR 0x0A] @ '';'' @ [CHR 0x0A])) \<rparr>))"
  using assms
  by (simp add: signedTokenOrRedirect_def getSandboxIdFromSignedPreviewUrlToken_def
        Let_def logCall_def split: sum.splits)

text \<open>
  C10. When the preview-token API resolves the path token but the cookie cannot be
  encoded, \<^verbatim>\<open>getSandboxIdFromSignedPreviewUrlToken\<close> returns an error and writes no cookie.
  \<^verbatim>\<open>Authenticate\<close> then writes no cookie either and returns the path token, never the
  resolved id; its outcome is the one it has when the API rejects the token, up to the
  wording of the error; and when the attempt is reached and the auth URL is available,
  the request ends in the 307 redirect with the encoding failure among the reasons.
\<close>

theorem encode_failure_is_authentication_failure:
  assumes "previewApiGetSandboxId p tok port = Inr sid"
    and "secureCookieEncode p (SANDBOX_AUTH_COOKIE_NAME p @ sid) sid = Inl e"
  shows "getSandboxIdFromSignedPreviewUrlToken p ctx tok port cookieDomain =
           (ctx\<lparr>ctx_Calls := ctx_Calls ctx @
                   [CallSignedPreviewUrlToken tok port,
                    CallCookieEncode (SANDBOX_AUTH_COOKIE_NAME p @ sid) sid]\<rparr>,
            Inl (''failed to encode cookie: '' @ e))
       \<and> ctx_SetCookies (fst (Authenticate p ctx tok port)) = ctx_SetCookies ctx
       \<and> sandboxId (snd (Authenticate p ctx tok port)) = tok
       \<and> sameOutcome (Authenticate p ctx tok port)
            (Authenticate (p\<lparr>previewApiGetSandboxId := (\<lambda>t q. Inl e')\<rparr>) ctx tok port)
       \<and> (getAuthUrl p (ctx_Request ctx) tok = Inr url \<longrightarrow>
            signedTokenOrRedirect p tok port ctx errs =
              (ctx\<lparr>ctx_Redirect := Some (307, url),
                   ctx_Calls := ctx_Calls ctx @
                      [CallSignedPreviewUrlToken tok port,
                       CallCookieEncode (SANDBOX_AUTH_COOKIE_NAME p @ sid) sid,
                       CallAuthUrl tok]\<rparr>,
               \<lparr> sandboxId = tok, didRedirect = True,
                 err = Some (''authentication failed:'' @ [CHR 0x0A]
                               @ Join (errs @ [''failed to encode cookie: '' @ e])
                                   ([CHR 0x0A] @ '';'' @ [CHR 0x0A])) \<rparr>))"
proof -
  let ?p' = "p\<lparr>previewApiGetSandboxId := (\<lambda>t q. Inl e')\<rparr>"
  have g: "getSandboxIdFromSignedPreviewUrlToken p ctx tok port cookieDomain =
           (ctx\<lparr>ctx_Calls := ctx_Calls ctx @
                   [CallSignedPreviewUrlToken tok port,
                    CallCookieEncode (SANDBOX_AUTH_COOKIE_NAME p @ sid) sid]\<rparr>,
            Inl (''failed to encode cookie: '' @ e))"
    using assms by (simp add: getSandboxIdFromSignedPreviewUrlToken_def Let_def logCall_def)
  have last: "getAuthUrl p (ctx_Request ctx) tok = Inr url \<longrightarrow>
            signedTokenOrRedirect p tok port ctx errs =
              (ctx\<lparr>ctx_Redirect := Some (307, url),
                   ctx_Calls := ctx_Calls ctx @
                      [CallSignedPreviewUrlToken tok port,
                       CallCookieEncode (SANDBOX_AUTH_COOKIE_NAME p @ sid) sid,
                       CallAuthUrl tok]\<rparr>,
               \<lparr> sandboxId = tok, didRedirect = True,
                 err = Some (''authentication failed:'' @ [CHR 0x0A]
                               @ Join (errs @ [''failed to encode cookie: '' @ e])
                                   ([CHR 0x0A] @ '';'' @ [CHR 0x0A])) \<rparr>)"
    by (simp add: signedTokenOrRedirect_encode_fails[OF assms])
  have inv: "previewApiGetSandboxId ?p' tok port = Inl e'"
    by simp
  have auth: "ctx_SetCookies (fst (Authenticate p ctx tok port)) = ctx_SetCookies ctx
       \<and> sandboxId (snd (Authenticate p ctx tok port)) = tok
       \<and> sameOutcome (Authenticate p ctx tok port) (Authenticate ?p' ctx tok port)"
  proof (rule Authenticate_cases[where p = p and ctx = ctx and tok = tok and port = port])
    fix c
    assume a: "\<And>f. Authenticate (p\<lparr>previewApiGetSandboxId := f\<rparr>) ctx tok port
                   = (c, succeed tok)"
      and s: "ctx_SetCookies c = ctx_SetCookies ctx"
    from a[of "previewApiGetSandboxId p"] a[of "\<lambda>t q. Inl e'"] s show ?thesis
      by (simp add: sameOutcome_def succeed_def)
  next
    fix c es
    assume a: "\<And>f. Authenticate (p\<lparr>previewApiGetSandboxId := f\<rparr>) ctx tok port
                   = signedTokenOrRedirect (p\<lparr>previewApiGetSandboxId := f\<rparr>) tok port c es"
      and s: "ctx_SetCookies c = ctx_SetCookies ctx"
    have 1: "Authenticate p ctx tok port = signedTokenOrRedirect p tok port c es"
      using a[of "previewApiGetSandboxId p"] by simp
    have 2: "Authenticate ?p' ctx tok port = signedTokenOrRedirect ?p' tok port c es"
      using a[of "\<lambda>t q. Inl e'"] by simp
    show ?thesis
      unfolding 1 2 signedTokenOrRedirect_encode_fails[OF assms]
        signedTokenOrRedirect_token_invalid[OF inv]
      using s by (simp add: sameOutcome_def split: sum.splits)
  qed
  from g auth last show ?thesis by blast
qed

lemma exNoEncode_hyps:
  "previewApiGetSandboxId exProxyNoEncode ''signed'' 3000 = Inr ''sb1''
   \<and> secureCookieEncode exProxyNoEncode (SANDBOX_AUTH_COOKIE_NAME exProxyNoEncode @ ''sb1'') ''sb1''
       = Inl ''no key''"
  by (simp add: exProxyNoEncode_def exProxy_def)

lemma exNoEncode_authUrl:
  "getAuthUrl exProxyNoEncode (ctx_Request (exContext exReqNoCredentials)) ''signed''
     = Inr ''https://auth/signed''"
  by (simp add: exProxyNoEncode_def exProxy_def)

theorem encode_failure_is_authentication_failure_witness:
  "previewApiGetSandboxId exProxyNoEncode ''signed'' 3000 = Inr ''sb1''
   \<and> secureCookieEncode exProxyNoEncode (SANDBOX_AUTH_COOKIE_NAME exProxyNoEncode @ ''sb1'') ''sb1''
       = Inl ''no key''
   \<and> getAuthUrl exProxyNoEncode (ctx_Request (exContext exReqNoCredentials)) ''signed''
       = Inr ''https://auth/signed''
   \<and> ctx_SetCookies (fst (Authenticate exProxyNoEncode (exContext exReqNoCredentials)
                             ''signed'' 3000)) = []
   \<and> sandboxId (snd (Authenticate exProxyNoEncode (exContext exReqNoCredentials)
                        ''signed'' 3000)) = ''signed''
   \<and> sameOutcome (Authenticate exProxyNoEncode (exContext exReqNoCredentials) ''signed'' 3000)
        (Authenticate (exProxyNoEncode\<lparr>previewApiGetSandboxId := (\<lambda>t q. Inl ''404'')\<rparr>)
           (exContext exReqNoCredentials) ''signed'' 3000)
   \<and> snd (signedTokenOrRedirect exProxyNoEncode ''signed'' 3000 (exContext exReqNoCredentials) [])
       = \<lparr> sandboxId = ''signed'', didRedirect = True,
           err = Some (''authentication failed:'' @ newline @ ''failed to encode cookie: no key'') \<rparr>"
proof -
  note h = exNoEncode_hyps
  note t = encode_failure_is_authentication_failure
    [OF h [THEN conjunct1] h [THEN conjunct2],
     of "exContext exReqNoCredentials" "''proxy''" "''404''" "''https://auth/signed''" "[]"]
  have c: "ctx_SetCookies (fst (Authenticate exProxyNoEncode (exContext exReqNoCredentials)
                             ''signed'' 3000)) = []"
    using t [THEN conjunct2, THEN conjunct1] by (simp add: exContext_def)
  have r: "snd (signedTokenOrRedirect exProxyNoEncode ''signed'' 3000
                  (exContext exReqNoCredentials) [])
       = \<lparr> sandboxId = ''signed'', didRedirect = True,
           err = Some (''authentication failed:'' @ newline @ ''failed to encode cookie: no key'') \<rparr>"
    using t [THEN conjunct2, THEN conjunct2, THEN conjunct2, THEN conjunct2] exNoEncode_authUrl
    by (simp add: newline_def)
  show ?thesis
    using h exNoEncode_authUrl c r
      t [THEN conjunct2, THEN conjunct2, THEN conjunct1]
      t [THEN conjunct2, THEN conjunct2, THEN conjunct2, THEN conjunct1]
    by blast
qed

end
